theory Spec2Isabelle
  imports Main "HOL-Library.Sublist"
begin

section \<open>Text\<close>

text \<open>
  A Python \<open>str\<close> is modelled as a HOL \<open>string\<close>, one \<open>char\<close> per character, for
  characters with code points 0 to 255. On that range \<open>str.strip\<close>, \<open>str.splitlines\<close>
  and \<open>str.lower\<close> are as below. Characters beyond that range occur in the source only
  inside fixed status messages; there they are written as their UTF-8 bytes, and nothing
  in the program reads them back.
\<close>

definition isspace :: "char \<Rightarrow> bool" where
  "isspace c =
     (let n = (of_char c :: nat)
      in (9 \<le> n \<and> n \<le> 13) \<or> (28 \<le> n \<and> n \<le> 32) \<or> n = 133 \<or> n = 160)"

definition strip :: "string \<Rightarrow> string" where
  "strip s = rev (dropWhile isspace (rev (dropWhile isspace s)))"

definition is_linebreak :: "char \<Rightarrow> bool" where
  "is_linebreak c =
     (let n = (of_char c :: nat)
      in (10 \<le> n \<and> n \<le> 13) \<or> (28 \<le> n \<and> n \<le> 30) \<or> n = 133)"

text \<open>\<open>splitlines_from cur s\<close>: the lines of \<open>s\<close>, with \<open>cur\<close> the current line so far,
  reversed. A carriage return followed by a line feed is one break; a final break opens
  no empty line.\<close>

fun splitlines_from :: "string \<Rightarrow> string \<Rightarrow> string list" where
  "splitlines_from cur [] = (if cur = [] then [] else [rev cur])"
| "splitlines_from cur (c # cs) =
     (if c = CHR 0x0D \<and> cs \<noteq> [] \<and> hd cs = CHR 0x0A then rev cur # splitlines_from [] (tl cs)
      else if is_linebreak c then rev cur # splitlines_from [] cs
      else splitlines_from (c # cur) cs)"

definition splitlines :: "string \<Rightarrow> string list" where
  "splitlines s = splitlines_from [] s"

definition lower_char :: "char \<Rightarrow> char" where
  "lower_char c =
     (let n = (of_char c :: nat)
      in if (65 \<le> n \<and> n \<le> 90) \<or> (192 \<le> n \<and> n \<le> 222 \<and> n \<noteq> 215)
         then char_of (n + 32) else c)"

definition lower :: "string \<Rightarrow> string" where
  "lower s = map lower_char s"

text \<open>\<open>contains s sub\<close> is Python's \<open>sub in s\<close>.\<close>

fun contains :: "string \<Rightarrow> string \<Rightarrow> bool" where
  "contains [] sub = (sub = [])"
| "contains (c # cs) sub = (prefix sub (c # cs) \<or> contains cs sub)"

definition endswith :: "string \<Rightarrow> string \<Rightarrow> bool" where
  "endswith s suf = (length suf \<le> length s \<and> drop (length s - length suf) s = suf)"

text \<open>\<open>str_or_empty x\<close> is \<open>(x or "")\<close> for \<open>x\<close> a string or \<open>None\<close>.\<close>

definition str_or_empty :: "string option \<Rightarrow> string" where
  "str_or_empty x = (case x of None \<Rightarrow> [] | Some s \<Rightarrow> (if s = [] then [] else s))"

definition digit_char :: "nat \<Rightarrow> char" where
  "digit_char d = char_of (48 + d)"

fun str_nat :: "nat \<Rightarrow> string" where
  "str_nat n = (if n < 10 then [digit_char n] else str_nat (n div 10) @ [digit_char (n mod 10)])"

definition str_int :: "int \<Rightarrow> string" where
  "str_int i = (if i < 0 then CHR ''-'' # str_nat (nat (- i)) else str_nat (nat i))"

text \<open>\<open>os.path.join\<close> of two components, as \<open>posixpath\<close> has it.\<close>

definition os_path_join :: "string \<Rightarrow> string \<Rightarrow> string" where
  "os_path_join a b =
     (if b \<noteq> [] \<and> hd b = CHR ''/'' then b
      else if a = [] \<or> last a = CHR ''/'' then a @ b
      else a @ ''/'' @ b)"

definition nl :: string where
  "nl = [CHR 0x0A]"

definition warning_sign :: string where
  "warning_sign = [CHR 0xE2, CHR 0x9A, CHR 0xA0]"

definition em_dash :: string where
  "em_dash = [CHR 0xE2, CHR 0x80, CHR 0x94]"

definition check_mark :: string where
  "check_mark = [CHR 0xE2, CHR 0x9C, CHR 0x94]"

definition cross_mark :: string where
  "cross_mark = [CHR 0xE2, CHR 0x9C, CHR 0x98]"

definition clockwise_arrow :: string where
  "clockwise_arrow = [CHR 0xE2, CHR 0x86, CHR 0xBB]"

section \<open>The environment and the observable behaviour\<close>

text \<open>
  The program talks to external commands, the file system, the network and the user.
  What they answer is not decided by the program, so it is a parameter: \<open>env\<close> gives the
  answer to the \<open>n\<close>-th question the program asks. The program is deterministic, so any
  behaviour of the outside along one run is such a function. \<open>proc_answer\<close> is \<open>None\<close>
  when the command's binary is not found (\<open>subprocess.run\<close> raises
  \<open>FileNotFoundError\<close>), else the completed process. Other failures of the operating
  system, of the network and of file access are outside the model.
\<close>

record CompletedProcess =
  returncode :: int
  stdout :: string
  stderr :: string

record env =
  proc_answer :: "nat \<Rightarrow> string list \<Rightarrow> CompletedProcess option"
  path_exists :: "nat \<Rightarrow> string \<Rightarrow> bool"
  typed_line :: "nat \<Rightarrow> string"
  mkdtemp_answer :: "nat \<Rightarrow> string \<Rightarrow> string"
  http_status :: "nat \<Rightarrow> string \<Rightarrow> int"
  listdir_answer :: "nat \<Rightarrow> string \<Rightarrow> string list"

datatype event =
    Exec "string list"
  | Exists string
  | Print string
  | Sleep nat
  | Input string
  | Mkdtemp string
  | HttpGet string
  | WriteFile string
  | Listdir string
  | Rmtree string

record world =
  tick :: nat
  trace :: "event list"

datatype exn = FileNotFoundError | SystemExit int

definition emit :: "event \<Rightarrow> world \<Rightarrow> world" where
  "emit ev w = w\<lparr>trace := trace w @ [ev]\<rparr>"

definition ask :: "event \<Rightarrow> world \<Rightarrow> world" where
  "ask ev w = w\<lparr>tick := Suc (tick w), trace := trace w @ [ev]\<rparr>"

definition print :: "string \<Rightarrow> world \<Rightarrow> world" where
  "print s w = emit (Print s) w"

definition sleep :: "nat \<Rightarrow> world \<Rightarrow> world" where
  "sleep n w = emit (Sleep n) w"

definition subprocess_run :: "env \<Rightarrow> string list \<Rightarrow> world \<Rightarrow> (exn + CompletedProcess) \<times> world" where
  "subprocess_run e cmd w =
     (case proc_answer e (tick w) cmd of
        None \<Rightarrow> (Inl FileNotFoundError, ask (Exec cmd) w)
      | Some result \<Rightarrow> (Inr result, ask (Exec cmd) w))"

definition os_path_exists :: "env \<Rightarrow> string \<Rightarrow> world \<Rightarrow> bool \<times> world" where
  "os_path_exists e path w = (path_exists e (tick w) path, ask (Exists path) w)"

definition input :: "env \<Rightarrow> string \<Rightarrow> world \<Rightarrow> string \<times> world" where
  "input e prompt w = (typed_line e (tick w), ask (Input prompt) w)"

definition mkdtemp :: "env \<Rightarrow> string \<Rightarrow> world \<Rightarrow> string \<times> world" where
  "mkdtemp e pre w = (mkdtemp_answer e (tick w) pre, ask (Mkdtemp pre) w)"

definition requests_get :: "env \<Rightarrow> string \<Rightarrow> world \<Rightarrow> int \<times> world" where
  "requests_get e url w = (http_status e (tick w) url, ask (HttpGet url) w)"

definition os_listdir :: "env \<Rightarrow> string \<Rightarrow> world \<Rightarrow> string list \<times> world" where
  "os_listdir e directory w = (listdir_answer e (tick w) directory, ask (Listdir directory) w)"

section \<open>Device detection\<close>

definition run :: "env \<Rightarrow> string list \<Rightarrow> world \<Rightarrow> (exn + string option \<times> string option) \<times> world" where
  "run e cmd w =
     (case subprocess_run e cmd w of
        (Inr result, w') \<Rightarrow> (Inr (Some (strip (stdout result)), Some (strip (stderr result))), w')
      | (Inl FileNotFoundError, w') \<Rightarrow> (Inr (None, None), w')
      | (Inl x, w') \<Rightarrow> (Inl x, w'))"

fun adb_device_scan :: "string list \<Rightarrow> bool" where
  "adb_device_scan [] = False"
| "adb_device_scan (line # rest) =
     (if endswith (strip line) ''device'' then True else adb_device_scan rest)"

definition adb_device_present :: "env \<Rightarrow> world \<Rightarrow> (exn + bool) \<times> world" where
  "adb_device_present e w =
     (case run e [''adb'', ''devices''] w of
        (Inl x, w') \<Rightarrow> (Inl x, w')
      | (Inr (None, _), w') \<Rightarrow> (Inr False, w')
      | (Inr (Some out, _), w') \<Rightarrow> (Inr (adb_device_scan (drop 1 (splitlines out))), w'))"

fun n200_adb_scan :: "string list \<Rightarrow> bool" where
  "n200_adb_scan [] = False"
| "n200_adb_scan (line # rest) =
     (if contains line ''ro.product.name'' \<and> contains line ''OnePlusN200'' then True
      else n200_adb_scan rest)"

definition detect_oneplus_n200_adb :: "env \<Rightarrow> world \<Rightarrow> (exn + bool) \<times> world" where
  "detect_oneplus_n200_adb e w =
     (case run e [''adb'', ''shell'', ''getprop''] w of
        (Inl x, w') \<Rightarrow> (Inl x, w')
      | (Inr (None, _), w') \<Rightarrow> (Inr False, w')
      | (Inr (Some out, _), w') \<Rightarrow> (Inr (n200_adb_scan (splitlines out)), w'))"

definition fastboot_device_present :: "env \<Rightarrow> world \<Rightarrow> (exn + bool) \<times> world" where
  "fastboot_device_present e w =
     (case run e [''fastboot'', ''devices''] w of
        (Inl x, w') \<Rightarrow> (Inl x, w')
      | (Inr (out, err), w') \<Rightarrow>
          (let combined = str_or_empty out @ str_or_empty err
           in (Inr (strip combined \<noteq> []), w')))"

definition detect_fastboot_mode :: "env \<Rightarrow> world \<Rightarrow> (exn + string) \<times> world" where
  "detect_fastboot_mode e w =
     (case run e [''fastboot'', ''getvar'', ''is-userspace''] w of
        (Inl x, w') \<Rightarrow> (Inl x, w')
      | (Inr (out, err), w') \<Rightarrow>
          (let combined = str_or_empty out @ str_or_empty err;
               low = lower combined
           in if contains low ''is-userspace: yes'' then (Inr ''fastbootd'', w')
              else if contains low ''is-userspace: no'' then (Inr ''bootloader'', w')
              else (Inr ''unknown'', w')))"

text \<open>The \<open>while True\<close> loop of \<open>ensure_fastbootd\<close>. It has no bound on its iterations, so
  its result is an option: \<open>None\<close> is the loop that never returns.\<close>

partial_function (option) ensure_fastbootd_while :: "env \<Rightarrow> world \<Rightarrow> ((exn + bool) \<times> world) option" where
  "ensure_fastbootd_while e w =
     (case detect_fastboot_mode e w of
        (Inl x, w1) \<Rightarrow> Some (Inl x, w1)
      | (Inr mode, w1) \<Rightarrow>
          (case fastboot_device_present e w1 of
             (Inl x, w2) \<Rightarrow> Some (Inl x, w2)
           | (Inr present, w2) \<Rightarrow>
               if \<not> present then Some (Inr False, print ''No fastboot device detected.'' w2)
               else if mode = ''fastbootd''
                 then Some (Inr True, print (check_mark @ '' Device is in fastbootd (userspace).'') w2)
               else if mode = ''bootloader''
                 then (case run e [''fastboot'', ''reboot'', ''fastboot'']
                              (print (clockwise_arrow @ '' Device is in bootloader fastboot. Rebooting to fastbootd...'') w2) of
                         (Inl x, w3) \<Rightarrow> Some (Inl x, w3)
                       | (Inr _, w3) \<Rightarrow>
                           ensure_fastbootd_while e
                             (sleep 15 (print ''Waiting 15 seconds for fastbootd...'' w3)))
               else ensure_fastbootd_while e
                      (sleep 3 (print (warning_sign @ '' Unknown fastboot mode. Retrying in 3s...'') w2))))"

declare ensure_fastbootd_while.simps [code]

definition ensure_fastbootd :: "env \<Rightarrow> world \<Rightarrow> ((exn + bool) \<times> world) option" where
  "ensure_fastbootd e w = ensure_fastbootd_while e (print (nl @ ''=== Ensuring fastbootd ==='') w)"

fun n200_fastboot_scan :: "string list \<Rightarrow> bool" where
  "n200_fastboot_scan [] = False"
| "n200_fastboot_scan (line # rest) =
     (if contains (lower line) ''system-fingerprint'' \<and> contains (lower line) ''oneplusn200'' then True
      else n200_fastboot_scan rest)"

definition detect_oneplus_n200_fastboot :: "env \<Rightarrow> world \<Rightarrow> (exn + bool) \<times> world" where
  "detect_oneplus_n200_fastboot e w =
     (case run e [''fastboot'', ''getvar'', ''all''] w of
        (Inl x, w') \<Rightarrow> (Inl x, w')
      | (Inr (out, err), w') \<Rightarrow>
          (let combined = str_or_empty out @ str_or_empty err
           in (Inr (n200_fastboot_scan (splitlines combined)), w')))"

section \<open>Download and extraction\<close>

definition FILES :: "string list" where
  "FILES =
     [''abl.img.zst'', ''bluetooth.img.zst'', ''core_nhlos.img.zst'', ''devcfg.img.zst'',
      ''dsp.img.zst'', ''featenabler.img.zst'', ''hyp.img.zst'', ''imagefv.img.zst'',
      ''keymaster.img.zst'', ''logo.img.zst'', ''modem.img.zst'', ''oplusstanvbk.img.zst'',
      ''qupfw.img.zst'', ''rpm.img.zst'', ''tz.img.zst'', ''uefisecapp.img.zst'',
      ''xbl_config.img.zst'', ''xbl.img.zst'']"

definition BASE_URL :: string where
  "BASE_URL = ''https://github.com/elginsk8r/oplus_archive/releases/download/DE2117_11_C.37/''"

fun download_each :: "env \<Rightarrow> string \<Rightarrow> string list \<Rightarrow> world \<Rightarrow> world" where
  "download_each e tmp_dir [] w = w"
| "download_each e tmp_dir (filename # rest) w =
     (let url = BASE_URL @ filename;
          dest_path = os_path_join tmp_dir filename;
          (there, w1) = os_path_exists e dest_path w
      in if there then download_each e tmp_dir rest w1
         else
           (let w2 = print (''[*] Downloading '' @ filename @ ''...'') w1;
                (status_code, w3) = requests_get e url w2
            in if status_code \<noteq> 200
               then download_each e tmp_dir rest
                      (print (''[-] Failed to download '' @ filename @ '': HTTP '' @ str_int status_code) w3)
               else download_each e tmp_dir rest
                      (print (''[+] Downloaded '' @ filename) (emit (WriteFile dest_path) w3))))"

definition download_files :: "env \<Rightarrow> string list \<Rightarrow> world \<Rightarrow> string \<times> world" where
  "download_files e file_list w =
     (let (tmp_dir, w1) = mkdtemp e ''oplus_download_'' w;
          w2 = print (''[+] Temporary download directory: '' @ tmp_dir) w1
      in (tmp_dir, download_each e tmp_dir file_list w2))"

fun extract_each :: "env \<Rightarrow> string \<Rightarrow> string list \<Rightarrow> world \<Rightarrow> (exn + unit) \<times> world" where
  "extract_each e directory [] w = (Inr (), w)"
| "extract_each e directory (filename # rest) w =
     (if endswith filename ''.zst'' then
        (let zst_path = os_path_join directory filename;
             out_path = os_path_join directory (take (length filename - 4) filename);
             w1 = print (''[*] Extracting '' @ filename @ '' -> '' @ out_path) w;
             cmd = [''zstd'', ''-d'', ''-f'', zst_path, ''-o'', out_path]
         in case subprocess_run e cmd w1 of
              (Inl x, w2) \<Rightarrow> (Inl x, w2)
            | (Inr result, w2) \<Rightarrow>
                if returncode result \<noteq> 0
                then extract_each e directory rest
                       (print (''[-] Failed to extract '' @ filename @ '': '' @ stderr result) w2)
                else extract_each e directory rest (print (''[+] Extracted '' @ filename) w2))
      else extract_each e directory rest w)"

definition extract_zst_files :: "env \<Rightarrow> string \<Rightarrow> world \<Rightarrow> (exn + unit) \<times> world" where
  "extract_zst_files e directory w =
     (let (names, w1) = os_listdir e directory w in extract_each e directory names w1)"

section \<open>Flashing\<close>

definition FLASH_COMMANDS :: "(string \<times> string) list" where
  "FLASH_COMMANDS =
     [(''abl'', ''abl.img''),
      (''bluetooth'', ''bluetooth.img''),
      (''core_nhlos'', ''core_nhlos.img''),
      (''devcfg'', ''devcfg.img''),
      (''dsp'', ''dsp.img''),
      (''featenabler'', ''featenabler.img''),
      (''hyp'', ''hyp.img''),
      (''imagefv'', ''imagefv.img''),
      (''keymaster'', ''keymaster.img''),
      (''logo'', ''logo.img''),
      (''modem'', ''modem.img''),
      (''oplusstanvbk'', ''oplusstanvbk.img''),
      (''qupfw'', ''qupfw.img''),
      (''rpm'', ''rpm.img''),
      (''tz'', ''tz.img''),
      (''uefisecapp'', ''uefisecapp.img''),
      (''xbl_config'', ''xbl_config.img''),
      (''xbl'', ''xbl.img'')]"

definition flash_cmd :: "string \<Rightarrow> string \<Rightarrow> string list" where
  "flash_cmd part path = [''fastboot'', ''flash'', ''--slot=all'', part, path]"

text \<open>The \<open>for\<close> loop of \<open>flash_images\<close> over a list of (partition, image file) pairs;
  \<open>part\<close> is the source's \<open>partition\<close>.\<close>

fun flash_each :: "env \<Rightarrow> string \<Rightarrow> (string \<times> string) list \<Rightarrow> world \<Rightarrow> (exn + unit) \<times> world" where
  "flash_each e directory [] w = (Inr (), w)"
| "flash_each e directory ((part, img_file) # rest) w =
     (let path = os_path_join directory img_file;
          (there, w1) = os_path_exists e path w
      in if \<not> there
         then flash_each e directory rest (print (''[-] File missing: '' @ img_file @ ''. Skipping.'') w1)
         else
           (let cmd = flash_cmd part path;
                w2 = print (''[*] Flashing '' @ part @ '' -> '' @ img_file) w1
            in case subprocess_run e cmd w2 of
                 (Inl x, w3) \<Rightarrow> (Inl x, w3)
               | (Inr result, w3) \<Rightarrow>
                   if returncode result \<noteq> 0
                   then flash_each e directory rest
                          (print (''[-] Failed to flash '' @ part @ '': '' @ stderr result) w3)
                   else flash_each e directory rest
                          (print (''[+] Successfully flashed '' @ part) w3)))"

definition flash_images :: "env \<Rightarrow> string \<Rightarrow> world \<Rightarrow> (exn + unit) \<times> world" where
  "flash_images e directory w =
     (case detect_oneplus_n200_fastboot e (print (nl @ ''=== Flashing images ==='') w) of
        (Inl x, w1) \<Rightarrow> (Inl x, w1)
      | (Inr is_n200, w1) \<Rightarrow>
          if \<not> is_n200
          then (Inr (), print ''[-] Device is no longer detected as OnePlus N200! Aborting.'' w1)
          else flash_each e directory FLASH_COMMANDS w1)"

section \<open>Main flow\<close>

definition disclaimer :: string where
  "disclaimer = nl @ concat (map (\<lambda>l. l @ nl)
     [''================================================================================'',
      warning_sign @ '' WARNING '' @ em_dash @ '' READ CAREFULLY '' @ warning_sign,
      '''',
      ''I am providing this resource on the condition that you, the end user, know what '',
      ''you are doing and know how to recover if/when something were to go wrong. I am '',
      ''not responsible for your actions, which include but are not limited to choosing '',
      ''to download and/or use this script. '',
      '''',
      ''You, by being the one using the script, accept that I, the developer, will take '',
      ''no responsibility in the event the device or ROM bricks, and I am not required '',
      ''to assist in debricking or to provide the debricking service for free. I am '',
      ''additionally not required to provide updates to the script, provided that it '',
      ''functions as intended. However, I will say that this script does work, as I '',
      ''have tested it myself.'',
      '''',
      ''By proceeding, you accept full responsibility for any outcome.'',
      ''================================================================================'',
      '''',
      ''NOTICE: During testing, the device exhibited behavior where it automatically '',
      ''wiped the /data/app folder and all application data, while returning the device '',
      ''to the Out-Of-Box Experience (OOBE). Userdata and root modules were preserved. '',
      ''This may be related to an internal device-protection mechanism, though this '',
      ''cannot be guaranteed. '',
      '''',
      ''Regardless, back up all data beforehand to prevent any data loss. If you fail '',
      ''to do so, I will not be responsible for any lost work, data, or time.''])"

text \<open>\<open>main\<close> from the download step to its end.\<close>

definition main_download_and_flash :: "env \<Rightarrow> world \<Rightarrow> (exn + unit) \<times> world" where
  "main_download_and_flash e w =
     (let (tmp_dir, w1) = download_files e FILES
                            (print (nl @ ''=== Downloading Needed Update Files ==='' @ nl) w)
      in case extract_zst_files e tmp_dir w1 of
           (Inl x, w2) \<Rightarrow> (Inl x, w2)
         | (Inr _, w2) \<Rightarrow>
             (case flash_images e tmp_dir (print (nl @ ''=== Flashing Update Files ==='' @ nl) w2) of
                (Inl x, w3) \<Rightarrow> (Inl x, w3)
              | (Inr _, w3) \<Rightarrow>
                  (let w4 = print (''[*] Cleaning up temporary files: '' @ tmp_dir) w3;
                       w5 = emit (Rmtree tmp_dir) w4;
                       w6 = print ''[+] Cleanup complete.'' w5;
                       w7 = print ''Rebooting Device'' w6
                   in case run e [''fastboot'', ''reboot''] w7 of
                        (Inl x, w8) \<Rightarrow> (Inl x, w8)
                      | (Inr _, w8) \<Rightarrow> (Inr (), print (nl @ ''[+] All done.'') w8))))"

text \<open>\<open>main\<close> from the fastboot block on.\<close>

definition main_fastboot_mode :: "env \<Rightarrow> world \<Rightarrow> ((exn + unit) \<times> world) option" where
  "main_fastboot_mode e w =
     (case fastboot_device_present e w of
        (Inl x, w1) \<Rightarrow> Some (Inl x, w1)
      | (Inr present, w1) \<Rightarrow>
          if present then
            (case ensure_fastbootd e (print ''[*] Device detected in fastboot mode.'' w1) of
               None \<Rightarrow> None
             | Some (Inl x, w2) \<Rightarrow> Some (Inl x, w2)
             | Some (Inr _, w2) \<Rightarrow>
                 (case detect_oneplus_n200_fastboot e w2 of
                    (Inl x, w3) \<Rightarrow> Some (Inl x, w3)
                  | (Inr is_n200, w3) \<Rightarrow>
                      if \<not> is_n200
                      then Some (Inr (), print (cross_mark @ '' Fastbootd device detected, but NOT a OnePlus N200. Aborting.'') w3)
                      else Some (main_download_and_flash e
                             (print (check_mark @ '' Device confirmed as OnePlus N200 in fastbootd.'') w3))))
          else Some (main_download_and_flash e w1))"

text \<open>\<open>main\<close> from the bridge block on.\<close>

definition main_adb_mode :: "env \<Rightarrow> world \<Rightarrow> ((exn + unit) \<times> world) option" where
  "main_adb_mode e w =
     (case adb_device_present e w of
        (Inl x, w1) \<Rightarrow> Some (Inl x, w1)
      | (Inr present, w1) \<Rightarrow>
          if present then
            (case detect_oneplus_n200_adb e (print ''[*] Device detected in ADB mode.'' w1) of
               (Inl x, w2) \<Rightarrow> Some (Inl x, w2)
             | (Inr is_n200, w2) \<Rightarrow>
                 if is_n200 then
                   (case run e [''adb'', ''reboot'', ''fastboot'']
                           (print (check_mark @ '' Device is a OnePlus N200 (ADB mode). Rebooting to fastbootd...'') w2) of
                      (Inl x, w3) \<Rightarrow> Some (Inl x, w3)
                    | (Inr _, w3) \<Rightarrow>
                        (case ensure_fastbootd e (sleep 15 w3) of
                           None \<Rightarrow> None
                         | Some (Inl x, w4) \<Rightarrow> Some (Inl x, w4)
                         | Some (Inr _, w4) \<Rightarrow> main_fastboot_mode e w4))
                 else Some (Inr (), print (cross_mark @ '' ADB device detected, but it is NOT a OnePlus N200.'') w2))
          else main_fastboot_mode e w1)"

definition main :: "env \<Rightarrow> world \<Rightarrow> ((exn + unit) \<times> world) option" where
  "main e w =
     (let w1 = print disclaimer w;
          (answer, w2) = input e ''Do you want to continue? (yes/[no]): '' w1;
          proceed = lower (strip answer)
      in if proceed \<noteq> ''yes'' then Some (Inl (SystemExit 0), print ''Aborted by user.'' w2)
         else main_adb_mode e
                (print (nl @ ''=== Starting Device Detection Logic ==='' @ nl)
                  (print (nl @ ''=== OnePlus N200 C.37 Blobs Autoflasher ==='' @ nl) w2)))"

section \<open>What a run shows\<close>

text \<open>The events a computation added to the trace, and what they contain: the commands
  run, the lines printed, the paths tested, the addresses fetched.\<close>

definition events_since :: "world \<Rightarrow> world \<Rightarrow> event list" where
  "events_since w w' = drop (length (trace w)) (trace w')"

fun executed :: "event list \<Rightarrow> string list list" where
  "executed [] = []"
| "executed (Exec cmd # evs) = cmd # executed evs"
| "executed (ev # evs) = executed evs"

fun printed :: "event list \<Rightarrow> string list" where
  "printed [] = []"
| "printed (Print s # evs) = s # printed evs"
| "printed (ev # evs) = printed evs"

fun tested :: "event list \<Rightarrow> string list" where
  "tested [] = []"
| "tested (Exists path # evs) = path # tested evs"
| "tested (ev # evs) = tested evs"

fun fetched :: "event list \<Rightarrow> string list" where
  "fetched [] = []"
| "fetched (HttpGet url # evs) = url # fetched evs"
| "fetched (ev # evs) = fetched evs"

fun slept :: "event list \<Rightarrow> nat list" where
  "slept [] = []"
| "slept (Sleep n # evs) = n # slept evs"
| "slept (ev # evs) = slept evs"

text \<open>The events after the first report of a failed mode transition: \<open>ensure_fastbootd\<close>
  prints that line exactly when it returns false.\<close>

definition after_failed_transition :: "event list \<Rightarrow> event list" where
  "after_failed_transition evs =
     drop 1 (dropWhile (\<lambda>ev. ev \<noteq> Print ''No fastboot device detected.'') evs)"

text \<open>The command that \<open>extract_zst_files\<close> runs for a file of the directory.\<close>

definition zstd_cmd :: "string \<Rightarrow> string \<Rightarrow> string list" where
  "zstd_cmd directory filename =
     [''zstd'', ''-d'', ''-f'', os_path_join directory filename, ''-o'',
      os_path_join directory (take (length filename - 4) filename)]"

definition flash_commands :: "event list \<Rightarrow> string list list" where
  "flash_commands evs = filter (\<lambda>cmd. take 2 cmd = [''fastboot'', ''flash'']) (executed evs)"

text \<open>The program reports an outcome as a printed line that starts with \<open>[-]\<close> or
  \<open>[+]\<close>; progress lines start with \<open>[*]\<close>, headings with a line feed.\<close>

definition reports :: "event list \<Rightarrow> string list" where
  "reports evs = filter (\<lambda>s. prefix ''[-]'' s \<or> prefix ''[+]'' s) (printed evs)"

section \<open>The flash sweep as the specification words it\<close>

datatype FlashOutcome = Flashed | SkippedMissingFile | Failed string

text \<open>The line by which the program reports an outcome for a (partition, image file) pair.\<close>

fun report_line :: "string \<times> string \<Rightarrow> FlashOutcome \<Rightarrow> string" where
  "report_line (part, img_file) Flashed = ''[+] Successfully flashed '' @ part"
| "report_line (part, img_file) SkippedMissingFile = ''[-] File missing: '' @ img_file @ ''. Skipping.''"
| "report_line (part, img_file) (Failed reason) = ''[-] Failed to flash '' @ part @ '': '' @ reason"

text \<open>
  \<open>flashAll_from e directory t specs\<close> follows the specification's sweep, not the source:
  for each pair in order, \<open>SkippedMissingFile\<close> when the image file is absent from the
  directory, else \<open>Failed\<close> with the standard error text on a non-zero exit of the flash
  command and \<open>Flashed\<close> on a zero exit, and then the next pair whatever the outcome.
  \<open>t\<close> counts the questions put to the environment before the sweep, so that each answer
  is read at the moment the sweep asks. The specification does not say what the outcome
  is when the flash tool itself is not found; the list ends there.
\<close>

fun flashAll_from :: "env \<Rightarrow> string \<Rightarrow> nat \<Rightarrow> (string \<times> string) list \<Rightarrow> FlashOutcome list" where
  "flashAll_from e directory t [] = []"
| "flashAll_from e directory t ((part, img_file) # rest) =
     (if \<not> path_exists e t (os_path_join directory img_file)
      then SkippedMissingFile # flashAll_from e directory (Suc t) rest
      else (case proc_answer e (Suc t) (flash_cmd part (os_path_join directory img_file)) of
              None \<Rightarrow> []
            | Some result \<Rightarrow>
                (if returncode result \<noteq> 0 then Failed (stderr result) else Flashed)
                  # flashAll_from e directory (Suc (Suc t)) rest))"

definition attempted_flash_commands :: "string \<Rightarrow> (string \<times> string) list \<Rightarrow> FlashOutcome list \<Rightarrow> string list list" where
  "attempted_flash_commands directory specs outcomes =
     map (\<lambda>((part, img_file), outcome). flash_cmd part (os_path_join directory img_file))
       (filter (\<lambda>(spec, outcome). outcome \<noteq> SkippedMissingFile) (zip specs outcomes))"

section \<open>Concrete environments\<close>

definition completed :: "int \<Rightarrow> string \<Rightarrow> string \<Rightarrow> CompletedProcess" where
  "completed rc out err = \<lparr>returncode = rc, stdout = out, stderr = err\<rparr>"

text \<open>An environment with the given command answers and files, a user who types \<open>yes\<close>,
  downloads that succeed, and a download directory that lists the fetched archives.\<close>

definition scripted :: "(nat \<Rightarrow> string list \<Rightarrow> CompletedProcess option) \<Rightarrow> (nat \<Rightarrow> string \<Rightarrow> bool) \<Rightarrow> env" where
  "scripted answers files =
     \<lparr>proc_answer = answers,
      path_exists = files,
      typed_line = (\<lambda>t. ''yes''),
      mkdtemp_answer = (\<lambda>t pre. ''/tmp/'' @ pre @ ''k3v9'' ),
      http_status = (\<lambda>t url. 200),
      listdir_answer = (\<lambda>t directory. FILES)\<rparr>"

definition start :: world where
  "start = \<lparr>tick = 0, trace = []\<rparr>"

definition n200_getvar_all :: CompletedProcess where
  "n200_getvar_all =
     completed 0 ''''
       (''(bootloader) product:OnePlusN200'' @ nl @
        ''(bootloader) system-fingerprint:OnePlus/OnePlusN200/OnePlusN200:11/RKQ1.201217.002'' @ nl @
        ''all: '' @ nl @ ''Finished. Total time: 0.004s'')"

text \<open>Another phone answers the variable dump.\<close>

definition env_other_phone :: env where
  "env_other_phone =
     scripted
       (\<lambda>t cmd. Some (completed 0 ''''
          (''(bootloader) product:redfin'' @ nl @
           ''(bootloader) system-fingerprint:google/redfin/redfin:11/RQ3A.210805.001'' @ nl @
           ''all: '')))
       (\<lambda>t path. True)"


text \<open>The target phone; \<open>tz.img\<close> is the only missing file, every flash command exits zero.\<close>

definition env_tz_missing :: env where
  "env_tz_missing =
     scripted
       (\<lambda>t cmd.
          if cmd = [''fastboot'', ''getvar'', ''all''] then Some n200_getvar_all
          else Some (completed 0 '''' ''Finished. Total time: 0.512s''))
       (\<lambda>t path. path \<noteq> ''/tmp/fw/tz.img'')"

text \<open>The phone has dropped off the bus: the variable query fails, the device list is empty.\<close>

definition env_device_gone :: env where
  "env_device_gone =
     scripted
       (\<lambda>t cmd.
          if cmd = [''fastboot'', ''devices''] then Some (completed 0 '''' '''')
          else Some (completed 1 '''' ''getvar:is-userspace FAILED (Status read failed (No such device))''))
       (\<lambda>t path. True)"

text \<open>The phone is listed; its first answer to the submode query is an error, the next
  ones say userspace.\<close>

definition env_slow_to_answer :: env where
  "env_slow_to_answer =
     scripted
       (\<lambda>t cmd.
          if cmd = [''fastboot'', ''devices''] then Some (completed 0 (''8a1b2c3d'' @ [CHR 0x09] @ ''fastboot'' @ nl) '''')
          else if t = 0 then Some (completed 1 '''' ''getvar:is-userspace FAILED (remote: unknown command)'')
          else Some (completed 0 '''' (''is-userspace: yes'' @ nl @ ''Finished. Total time: 0.001s'')))
       (\<lambda>t path. True)"

text \<open>The bridge tool is installed and lists the target phone; the fastboot tool is not
  installed.\<close>

definition env_no_fastboot_tool :: env where
  "env_no_fastboot_tool =
     scripted
       (\<lambda>t cmd.
          if cmd = [''adb'', ''devices'']
            then Some (completed 0 (''List of devices attached'' @ nl @ ''8a1b2c3d'' @ [CHR 0x09] @ ''device'' @ nl @ nl) '''')
          else if cmd = [''adb'', ''shell'', ''getprop'']
            then Some (completed 0 (''[ro.product.model]: [DE2117]'' @ nl @ ''[ro.product.name]: [OnePlusN200]'' @ nl) '''')
          else if cmd \<noteq> [] \<and> hd cmd = ''fastboot'' then None
          else Some (completed 0 '''' ''''))
       (\<lambda>t path. False)"

text \<open>The fastboot tool answers the identity check and is gone when the first flash
  command is run; and an environment with no \<open>zstd\<close> tool.\<close>

definition env_fastboot_tool_removed :: env where
  "env_fastboot_tool_removed =
     scripted
       (\<lambda>t cmd. if t = 0 \<and> cmd = [''fastboot'', ''getvar'', ''all''] then Some n200_getvar_all else None)
       (\<lambda>t path. True)"

definition env_no_zstd_tool :: env where
  "env_no_zstd_tool =
     scripted
       (\<lambda>t cmd. if cmd \<noteq> [] \<and> hd cmd = ''zstd'' then None else Some (completed 0 '''' ''''))
       (\<lambda>t path. False)"

text \<open>The fastboot tool finds no device and says so on standard error only.\<close>

definition env_stderr_only :: env where
  "env_stderr_only =
     scripted
       (\<lambda>t cmd. Some (completed 1 '''' (''fastboot: error: cannot open USB device'' @ nl)))
       (\<lambda>t path. True)"

text \<open>The bridge lists one phone that has not authorised this computer.\<close>

definition env_unauthorized :: env where
  "env_unauthorized =
     scripted
       (\<lambda>t cmd. Some (completed 0 (''List of devices attached'' @ nl @ ''8a1b2c3d'' @ [CHR 0x09] @ ''unauthorized'' @ nl @ nl) ''''))
       (\<lambda>t path. True)"


section \<open>Facts about the text operations\<close>

lemma nonspace_dropWhile: "(\<exists>c\<in>set (dropWhile isspace s). \<not> isspace c) = (\<exists>c\<in>set s. \<not> isspace c)"
proof
  assume "\<exists>c\<in>set (dropWhile isspace s). \<not> isspace c"
  then show "\<exists>c\<in>set s. \<not> isspace c"
    using set_dropWhileD by fastforce
next
  assume "\<exists>c\<in>set s. \<not> isspace c"
  then obtain c where c: "c \<in> set s" "\<not> isspace c" by blast
  have "set s = set (takeWhile isspace s) \<union> set (dropWhile isspace s)"
    by (metis set_append takeWhile_dropWhile_id)
  moreover have "c \<notin> set (takeWhile isspace s)"
    using c(2) set_takeWhileD by fastforce
  ultimately show "\<exists>c\<in>set (dropWhile isspace s). \<not> isspace c"
    using c by blast
qed

lemma nonspace_strip: "(\<exists>c\<in>set (strip s). \<not> isspace c) = (\<exists>c\<in>set s. \<not> isspace c)"
proof -
  have "(\<exists>c\<in>set (strip s). \<not> isspace c) = (\<exists>c\<in>set (rev (dropWhile isspace s)). \<not> isspace c)"
    unfolding strip_def using nonspace_dropWhile [of "rev (dropWhile isspace s)"] by simp
  then show ?thesis
    using nonspace_dropWhile [of s] by simp
qed

lemma strip_empty_iff: "(strip s = []) = (\<forall>c\<in>set s. isspace c)"
proof -
  have "(strip s = []) = (\<forall>c\<in>set (dropWhile isspace s). isspace c)"
    by (simp add: strip_def dropWhile_eq_Nil_conv)
  then show ?thesis
    using nonspace_dropWhile [of s] by blast
qed

lemma strip_strip_append: "(strip (strip a @ strip b) = []) = (strip (a @ b) = [])"
  using nonspace_strip [of a] nonspace_strip [of b]
  by (simp add: strip_empty_iff ball_Un) blast

lemma contains_iff: "contains s sub = (\<exists>ps ss. s = ps @ sub @ ss)"
proof (induction s)
  case Nil
  then show ?case by auto
next
  case (Cons c cs)
  show ?case
  proof
    assume "contains (c # cs) sub"
    then consider "prefix sub (c # cs)" | "contains cs sub" by auto
    then show "\<exists>ps ss. c # cs = ps @ sub @ ss"
    proof cases
      case 1
      then obtain ss where "c # cs = sub @ ss" by (auto simp: prefix_def)
      then have "c # cs = [] @ sub @ ss" by simp
      then show ?thesis by blast
    next
      case 2
      with Cons.IH obtain ps ss where "cs = ps @ sub @ ss" by blast
      then have "c # cs = (c # ps) @ sub @ ss" by simp
      then show ?thesis by blast
    qed
  next
    assume "\<exists>ps ss. c # cs = ps @ sub @ ss"
    then obtain ps ss where eq: "c # cs = ps @ sub @ ss" by blast
    show "contains (c # cs) sub"
    proof (cases ps)
      case Nil
      with eq have "prefix sub (c # cs)" by (metis append_Nil prefixI)
      then show ?thesis by simp
    next
      case (Cons p ps')
      with eq have "cs = ps' @ sub @ ss" by simp
      with Cons.IH show ?thesis by auto
    qed
  qed
qed

lemma endswith_iff: "endswith s suf = suffix suf s"
proof
  assume "endswith s suf"
  then have "s = take (length s - length suf) s @ suf"
    by (metis append_take_drop_id endswith_def)
  then show "suffix suf s" by (metis suffixI)
next
  assume "suffix suf s"
  then obtain zs where "s = zs @ suf" by (auto simp: suffix_def)
  then show "endswith s suf" by (simp add: endswith_def)
qed

section \<open>Facts about command running and device detection\<close>

lemma adb_device_scan_iff: "adb_device_scan ls = (\<exists>line\<in>set ls. endswith (strip line) ''device'')"
  by (induction ls) auto

lemma n200_adb_scan_iff:
  "n200_adb_scan ls = (\<exists>line\<in>set ls. contains line ''ro.product.name'' \<and> contains line ''OnePlusN200'')"
  by (induction ls) auto

lemma n200_fastboot_scan_iff:
  "n200_fastboot_scan ls =
     (\<exists>line\<in>set ls. contains (lower line) ''system-fingerprint'' \<and> contains (lower line) ''oneplusn200'')"
  by (induction ls) auto

lemma run_result:
  "run e cmd w =
     (Inr (case proc_answer e (tick w) cmd of
             None \<Rightarrow> (None, None)
           | Some r \<Rightarrow> (Some (strip (stdout r)), Some (strip (stderr r)))),
      ask (Exec cmd) w)"
  by (simp add: run_def subprocess_run_def split: option.splits)

lemma str_or_empty_Some [simp]: "str_or_empty (Some s) = s"
  by (simp add: str_or_empty_def)

lemma str_or_empty_None [simp]: "str_or_empty None = []"
  by (simp add: str_or_empty_def)

lemma strip_Nil [simp]: "strip [] = []"
  by (simp add: strip_def)

lemma splitlines_Nil [simp]: "splitlines [] = []"
  by (simp add: splitlines_def)

lemma fastboot_device_present_result:
  "fastboot_device_present e w =
     (Inr (case proc_answer e (tick w) [''fastboot'', ''devices''] of
             None \<Rightarrow> False
           | Some r \<Rightarrow> strip (stdout r @ stderr r) \<noteq> []),
      ask (Exec [''fastboot'', ''devices'']) w)"
  by (simp add: fastboot_device_present_def run_result strip_strip_append split: option.splits)

lemma adb_device_present_result:
  "adb_device_present e w =
     (Inr (case proc_answer e (tick w) [''adb'', ''devices''] of
             None \<Rightarrow> False
           | Some r \<Rightarrow> (\<exists>line\<in>set (drop 1 (splitlines (strip (stdout r)))). endswith (strip line) ''device'')),
      ask (Exec [''adb'', ''devices'']) w)"
  by (simp add: adb_device_present_def run_result adb_device_scan_iff split: option.splits)

lemma detect_oneplus_n200_adb_result:
  "detect_oneplus_n200_adb e w =
     (Inr (case proc_answer e (tick w) [''adb'', ''shell'', ''getprop''] of
             None \<Rightarrow> False
           | Some r \<Rightarrow> (\<exists>line\<in>set (splitlines (strip (stdout r))).
                          contains line ''ro.product.name'' \<and> contains line ''OnePlusN200'')),
      ask (Exec [''adb'', ''shell'', ''getprop'']) w)"
  by (simp add: detect_oneplus_n200_adb_def run_result n200_adb_scan_iff split: option.splits)

lemma detect_oneplus_n200_fastboot_result:
  "detect_oneplus_n200_fastboot e w =
     (Inr (case proc_answer e (tick w) [''fastboot'', ''getvar'', ''all''] of
             None \<Rightarrow> False
           | Some r \<Rightarrow> (\<exists>line\<in>set (splitlines (strip (stdout r) @ strip (stderr r))).
                          contains (lower line) ''system-fingerprint'' \<and> contains (lower line) ''oneplusn200'')),
      ask (Exec [''fastboot'', ''getvar'', ''all'']) w)"
  by (simp add: detect_oneplus_n200_fastboot_def run_result n200_fastboot_scan_iff split: option.splits)


section \<open>The presence checks\<close>

lemma fastboot_device_present_nonspace:
  "fst (fastboot_device_present e w) =
     Inr (case proc_answer e (tick w) [''fastboot'', ''devices''] of
            None \<Rightarrow> False
          | Some r \<Rightarrow> (\<exists>c\<in>set (stdout r) \<union> set (stderr r). \<not> isspace c))"
  by (simp add: fastboot_device_present_result strip_empty_iff split: option.splits)

text \<open>
  Claim C9. \<open>fastboot_device_present\<close> never raises, and it answers true exactly when the
  standard output of \<open>fastboot devices\<close> followed by its standard error is non-empty
  after stripping white space; when the tool is not found it answers false. The source
  strips the two texts before it joins them and strips the result once more, which comes
  to the same. So any character that is not white space, on either stream, makes the
  answer true: an error message of the tool on standard error counts as a device.
\<close>

theorem fastboot_device_present_iff_output:
  "fst (fastboot_device_present e w) =
     Inr (case proc_answer e (tick w) [''fastboot'', ''devices''] of
            None \<Rightarrow> False
          | Some r \<Rightarrow> strip (stdout r @ stderr r) \<noteq> [])
   \<and> (\<forall>r. proc_answer e (tick w) [''fastboot'', ''devices''] = Some r
          \<and> (\<exists>c\<in>set (stdout r) \<union> set (stderr r). \<not> isspace c)
        \<longrightarrow> fst (fastboot_device_present e w) = Inr True)"
  using fastboot_device_present_nonspace [of e w]
  by (simp add: fastboot_device_present_result) auto

theorem fastboot_device_present_iff_output_witness:
  "proc_answer env_stderr_only (tick start) [''fastboot'', ''devices'']
     = Some (completed 1 '''' (''fastboot: error: cannot open USB device'' @ nl))
   \<and> stdout (completed 1 '''' (''fastboot: error: cannot open USB device'' @ nl)) = []
   \<and> (\<exists>c\<in>set (stdout (completed 1 '''' (''fastboot: error: cannot open USB device'' @ nl)))
            \<union> set (stderr (completed 1 '''' (''fastboot: error: cannot open USB device'' @ nl))). \<not> isspace c)
   \<and> fst (fastboot_device_present env_stderr_only start) = Inr True"
proof -
  let ?r = "completed 1 '''' (''fastboot: error: cannot open USB device'' @ nl)"
  have a: "proc_answer env_stderr_only (tick start) [''fastboot'', ''devices''] = Some ?r"
    by (simp add: env_stderr_only_def scripted_def)
  have b: "\<exists>c\<in>set (stdout ?r) \<union> set (stderr ?r). \<not> isspace c"
    by code_simp
  have c: "stdout ?r = []"
    by (simp add: completed_def)
  from fastboot_device_present_iff_output [of env_stderr_only start] a b
  have "fst (fastboot_device_present env_stderr_only start) = Inr True"
    by blast
  with a b c show ?thesis by blast
qed

lemma not_endswith_device:
  "endswith s ''unauthorized'' \<or> endswith s ''offline'' \<Longrightarrow> \<not> endswith s ''device''"
proof
  assume a: "endswith s ''unauthorized'' \<or> endswith s ''offline''" and b: "endswith s ''device''"
  from b obtain zs where zs: "s = zs @ ''device''" by (auto simp: endswith_iff suffix_def)
  from a obtain ys where "s = ys @ ''unauthorized'' \<or> s = ys @ ''offline''"
    by (auto simp: endswith_iff suffix_def)
  then have "last s = CHR ''d'' \<or> (s \<noteq> [] \<and> butlast s \<noteq> [] \<and> last (butlast s) = CHR ''n'')"
    by (auto simp: butlast_append)
  moreover from zs have "last s = CHR ''e'' \<and> last (butlast s) = CHR ''c''"
    by (simp add: butlast_append)
  ultimately show False by auto
qed

text \<open>
  Claim C10. \<open>adb_device_present\<close> never raises. It drops the first line of the output
  that \<open>run\<close> hands it (the standard output of \<open>adb devices\<close>, stripped) and answers true
  exactly when one of the later lines, stripped, ends with \<open>device\<close>; when the tool is
  not found it answers false. A listing whose later lines all end with \<open>unauthorized\<close> or
  \<open>offline\<close> gives false.
\<close>

theorem adb_device_present_iff_line:
  "fst (adb_device_present e w) =
     Inr (case proc_answer e (tick w) [''adb'', ''devices''] of
            None \<Rightarrow> False
          | Some r \<Rightarrow> (\<exists>line\<in>set (drop 1 (splitlines (strip (stdout r)))). endswith (strip line) ''device''))
   \<and> (\<forall>r. proc_answer e (tick w) [''adb'', ''devices''] = Some r
          \<and> (\<forall>line\<in>set (drop 1 (splitlines (strip (stdout r)))).
                endswith (strip line) ''unauthorized'' \<or> endswith (strip line) ''offline'')
        \<longrightarrow> fst (adb_device_present e w) = Inr False)"
  using not_endswith_device
  by (simp add: adb_device_present_result)


theorem adb_device_present_iff_line_witness:
  "proc_answer env_unauthorized (tick start) [''adb'', ''devices'']
     = Some (completed 0 (''List of devices attached'' @ nl @ ''8a1b2c3d'' @ [CHR 0x09] @ ''unauthorized'' @ nl @ nl) '''')
   \<and> drop 1 (splitlines (strip (stdout (completed 0 (''List of devices attached'' @ nl @ ''8a1b2c3d'' @ [CHR 0x09] @ ''unauthorized'' @ nl @ nl) ''''))))
       = [''8a1b2c3d'' @ [CHR 0x09] @ ''unauthorized'']
   \<and> fst (adb_device_present env_unauthorized start) = Inr False"
proof -
  let ?r = "completed 0 (''List of devices attached'' @ nl @ ''8a1b2c3d'' @ [CHR 0x09] @ ''unauthorized'' @ nl @ nl) ''''"
  have a: "proc_answer env_unauthorized (tick start) [''adb'', ''devices''] = Some ?r"
    by (simp add: env_unauthorized_def scripted_def)
  have b: "drop 1 (splitlines (strip (stdout ?r))) = [''8a1b2c3d'' @ [CHR 0x09] @ ''unauthorized'']"
    by code_simp
  have c: "endswith (strip (''8a1b2c3d'' @ [CHR 0x09] @ ''unauthorized'')) ''unauthorized''"
    by code_simp
  from b c have d: "\<forall>line\<in>set (drop 1 (splitlines (strip (stdout ?r)))).
      endswith (strip line) ''unauthorized'' \<or> endswith (strip line) ''offline''"
    by simp
  from adb_device_present_iff_line [of env_unauthorized start] a d
  have "fst (adb_device_present env_unauthorized start) = Inr False"
    by blast
  with a b show ?thesis by blast
qed

section \<open>The identity checks\<close>



section \<open>Facts about worlds, traces and the flash loop\<close>

lemma tick_print [simp]: "tick (print s w) = tick w"
  by (simp add: print_def emit_def)

lemma trace_print [simp]: "trace (print s w) = trace w @ [Print s]"
  by (simp add: print_def emit_def)

lemma tick_sleep [simp]: "tick (sleep n w) = tick w"
  by (simp add: sleep_def emit_def)

lemma trace_sleep [simp]: "trace (sleep n w) = trace w @ [Sleep n]"
  by (simp add: sleep_def emit_def)

lemma tick_ask [simp]: "tick (ask ev w) = Suc (tick w)"
  by (simp add: ask_def)

lemma trace_ask [simp]: "trace (ask ev w) = trace w @ [ev]"
  by (simp add: ask_def)

lemma executed_append [simp]: "executed (evs @ evs') = executed evs @ executed evs'"
  by (induction evs rule: executed.induct) simp_all

lemma printed_append [simp]: "printed (evs @ evs') = printed evs @ printed evs'"
  by (induction evs rule: printed.induct) simp_all

lemma tested_append [simp]: "tested (evs @ evs') = tested evs @ tested evs'"
  by (induction evs rule: tested.induct) simp_all

lemma flash_commands_append [simp]:
  "flash_commands (evs @ evs') = flash_commands evs @ flash_commands evs'"
  by (simp add: flash_commands_def)

lemma reports_append [simp]: "reports (evs @ evs') = reports evs @ reports evs'"
  by (simp add: reports_def)

lemma events_since_append: "trace w' = trace w @ evs \<Longrightarrow> events_since w w' = evs"
  by (simp add: events_since_def)

lemma flash_each_missing:
  "\<not> path_exists e (tick w) (os_path_join d img_file) \<Longrightarrow>
   flash_each e d ((part, img_file) # rest) w =
     flash_each e d rest
       (print (''[-] File missing: '' @ img_file @ ''. Skipping.'') (ask (Exists (os_path_join d img_file)) w))"
  by (simp add: os_path_exists_def Let_def)

lemma flash_each_exit:
  "path_exists e (tick w) (os_path_join d img_file) \<Longrightarrow>
   proc_answer e (Suc (tick w)) (flash_cmd part (os_path_join d img_file)) = Some r \<Longrightarrow>
   flash_each e d ((part, img_file) # rest) w =
     flash_each e d rest
       (print (if returncode r \<noteq> 0 then ''[-] Failed to flash '' @ part @ '': '' @ stderr r
               else ''[+] Successfully flashed '' @ part)
         (ask (Exec (flash_cmd part (os_path_join d img_file)))
           (print (''[*] Flashing '' @ part @ '' -> '' @ img_file)
             (ask (Exists (os_path_join d img_file)) w))))"
  by (simp add: os_path_exists_def subprocess_run_def Let_def)

lemma flash_each_tool_missing:
  "path_exists e (tick w) (os_path_join d img_file) \<Longrightarrow>
   proc_answer e (Suc (tick w)) (flash_cmd part (os_path_join d img_file)) = None \<Longrightarrow>
   flash_each e d ((part, img_file) # rest) w =
     (Inl FileNotFoundError,
       ask (Exec (flash_cmd part (os_path_join d img_file)))
         (print (''[*] Flashing '' @ part @ '' -> '' @ img_file)
           (ask (Exists (os_path_join d img_file)) w)))"
  by (simp add: os_path_exists_def subprocess_run_def Let_def)

lemma flash_each_extends: "\<exists>evs. trace (snd (flash_each e d specs w)) = trace w @ evs"
proof (induction specs arbitrary: w)
  case Nil
  then show ?case by simp
next
  case (Cons spec specs)
  obtain part img_file where spec: "spec = (part, img_file)" by (cases spec)
  show ?case
  proof (cases "path_exists e (tick w) (os_path_join d img_file)")
    case False
    from Cons.IH [of "print (''[-] File missing: '' @ img_file @ ''. Skipping.'') (ask (Exists (os_path_join d img_file)) w)"]
    show ?thesis
      unfolding spec flash_each_missing [OF False] by auto
  next
    case True
    show ?thesis
    proof (cases "proc_answer e (Suc (tick w)) (flash_cmd part (os_path_join d img_file))")
      case None
      show ?thesis
        unfolding spec flash_each_tool_missing [OF True None] by simp
    next
      case (Some r)
      from Cons.IH [of "print (if returncode r \<noteq> 0 then ''[-] Failed to flash '' @ part @ '': '' @ stderr r
               else ''[+] Successfully flashed '' @ part)
         (ask (Exec (flash_cmd part (os_path_join d img_file)))
           (print (''[*] Flashing '' @ part @ '' -> '' @ img_file)
             (ask (Exists (os_path_join d img_file)) w)))"]
      show ?thesis
        unfolding spec flash_each_exit [OF True Some] by auto
    qed
  qed
qed

lemma length_flashAll_from:
  "\<forall>t part path. proc_answer e t (flash_cmd part path) \<noteq> None \<Longrightarrow>
   length (flashAll_from e d t specs) = length specs"
proof (induction specs arbitrary: t)
  case Nil
  then show ?case by simp
next
  case (Cons spec specs)
  obtain part img_file where spec: "spec = (part, img_file)" by (cases spec)
  have "proc_answer e (Suc t) (flash_cmd part (os_path_join d img_file)) \<noteq> None"
    using Cons.prems [rule_format, of "Suc t" part "os_path_join d img_file"] .
  with Cons.IH [OF Cons.prems] show ?case
    unfolding spec by (auto split: option.splits)
qed

lemma take2_flash_cmd [simp]: "take 2 (flash_cmd part path) = [''fastboot'', ''flash'']"
  by (simp add: flash_cmd_def)

lemma flash_each_sweep:
  assumes tool: "\<forall>t part path. proc_answer e t (flash_cmd part path) \<noteq> None"
  shows "fst (flash_each e d specs w) = Inr () \<and>
         (\<exists>evs. trace (snd (flash_each e d specs w)) = trace w @ evs
            \<and> tested evs = map (\<lambda>(part, img_file). os_path_join d img_file) specs
            \<and> reports evs = map (\<lambda>(spec, outcome). report_line spec outcome)
                               (zip specs (flashAll_from e d (tick w) specs))
            \<and> flash_commands evs = attempted_flash_commands d specs (flashAll_from e d (tick w) specs))"
proof (induction specs arbitrary: w)
  case Nil
  then show ?case by (simp add: attempted_flash_commands_def reports_def flash_commands_def)
next
  case (Cons spec specs)
  obtain part img_file where spec: "spec = (part, img_file)" by (cases spec)
  let ?path = "os_path_join d img_file"
  show ?case
  proof (cases "path_exists e (tick w) ?path")
    case False
    let ?w1 = "print (''[-] File missing: '' @ img_file @ ''. Skipping.'') (ask (Exists ?path) w)"
    from Cons.IH [of ?w1] obtain evs where
      r: "fst (flash_each e d specs ?w1) = Inr ()" and
      t: "trace (snd (flash_each e d specs ?w1)) = trace ?w1 @ evs" and
      p: "tested evs = map (\<lambda>(part, img_file). os_path_join d img_file) specs" and
      q: "reports evs = map (\<lambda>(spec, outcome). report_line spec outcome)
                               (zip specs (flashAll_from e d (Suc (tick w)) specs))" and
      c: "flash_commands evs = attempted_flash_commands d specs (flashAll_from e d (Suc (tick w)) specs)"
      by auto
    let ?evs = "[Exists ?path, Print (''[-] File missing: '' @ img_file @ ''. Skipping.'')] @ evs"
    have "trace (snd (flash_each e d (spec # specs) w)) = trace w @ ?evs"
      unfolding spec flash_each_missing [OF False] using t by simp
    moreover have "tested ?evs = map (\<lambda>(part, img_file). os_path_join d img_file) (spec # specs)"
      using p by (simp add: spec)
    moreover have "reports ?evs = map (\<lambda>(spec, outcome). report_line spec outcome)
                               (zip (spec # specs) (flashAll_from e d (tick w) (spec # specs)))"
      using q False by (simp add: spec reports_def)
    moreover have "flash_commands ?evs = attempted_flash_commands d (spec # specs) (flashAll_from e d (tick w) (spec # specs))"
      using c False by (simp add: spec flash_commands_def attempted_flash_commands_def)
    moreover have "fst (flash_each e d (spec # specs) w) = Inr ()"
      unfolding spec flash_each_missing [OF False] using r by simp
    ultimately show ?thesis by blast
  next
    case True
    from tool [rule_format, of "Suc (tick w)" part ?path]
    obtain r where ans: "proc_answer e (Suc (tick w)) (flash_cmd part ?path) = Some r"
      by auto
    let ?line = "if returncode r \<noteq> 0 then ''[-] Failed to flash '' @ part @ '': '' @ stderr r
               else ''[+] Successfully flashed '' @ part"
    let ?w1 = "print ?line
         (ask (Exec (flash_cmd part ?path))
           (print (''[*] Flashing '' @ part @ '' -> '' @ img_file)
             (ask (Exists ?path) w)))"
    from Cons.IH [of ?w1] obtain evs where
      r: "fst (flash_each e d specs ?w1) = Inr ()" and
      t: "trace (snd (flash_each e d specs ?w1)) = trace ?w1 @ evs" and
      p: "tested evs = map (\<lambda>(part, img_file). os_path_join d img_file) specs" and
      q: "reports evs = map (\<lambda>(spec, outcome). report_line spec outcome)
                               (zip specs (flashAll_from e d (Suc (Suc (tick w))) specs))" and
      c: "flash_commands evs = attempted_flash_commands d specs (flashAll_from e d (Suc (Suc (tick w))) specs)"
      by auto
    let ?evs = "[Exists ?path, Print (''[*] Flashing '' @ part @ '' -> '' @ img_file),
                 Exec (flash_cmd part ?path), Print ?line] @ evs"
    have "trace (snd (flash_each e d (spec # specs) w)) = trace w @ ?evs"
      unfolding spec flash_each_exit [OF True ans] using t by simp
    moreover have "tested ?evs = map (\<lambda>(part, img_file). os_path_join d img_file) (spec # specs)"
      using p by (simp add: spec)
    moreover have "reports ?evs = map (\<lambda>(spec, outcome). report_line spec outcome)
                               (zip (spec # specs) (flashAll_from e d (tick w) (spec # specs)))"
      using q True ans by (simp add: spec reports_def)
    moreover have "flash_commands ?evs = attempted_flash_commands d (spec # specs) (flashAll_from e d (tick w) (spec # specs))"
      using c True ans by (simp add: spec flash_commands_def attempted_flash_commands_def)
    moreover have "fst (flash_each e d (spec # specs) w) = Inr ()"
      unfolding spec flash_each_exit [OF True ans] using r by simp
    ultimately show ?thesis by blast
  qed
qed

section \<open>The flash sweep\<close>

lemma flash_images_abort:
  "fst (detect_oneplus_n200_fastboot e w) = Inr False \<Longrightarrow>
   flash_images e d w =
     (Inr (), print ''[-] Device is no longer detected as OnePlus N200! Aborting.''
                (ask (Exec [''fastboot'', ''getvar'', ''all'']) (print (nl @ ''=== Flashing images ==='') w)))"
  by (simp add: flash_images_def detect_oneplus_n200_fastboot_result)

lemma flash_images_sweep:
  "fst (detect_oneplus_n200_fastboot e w) = Inr True \<Longrightarrow>
   flash_images e d w =
     flash_each e d FLASH_COMMANDS
       (ask (Exec [''fastboot'', ''getvar'', ''all'']) (print (nl @ ''=== Flashing images ==='') w))"
  by (simp add: flash_images_def detect_oneplus_n200_fastboot_result)

lemma flash_images_starts_with_check:
  "\<exists>rest. trace (snd (flash_images e d w)) =
     trace w @ Print (nl @ ''=== Flashing images ==='') # Exec [''fastboot'', ''getvar'', ''all''] # rest"
proof -
  let ?w1 = "ask (Exec [''fastboot'', ''getvar'', ''all'']) (print (nl @ ''=== Flashing images ==='') w)"
  obtain b where b: "fst (detect_oneplus_n200_fastboot e w) = Inr b"
    by (simp add: detect_oneplus_n200_fastboot_result)
  show ?thesis
  proof (cases b)
    case True
    with b have "flash_images e d w = flash_each e d FLASH_COMMANDS ?w1"
      by (simp add: flash_images_sweep)
    with flash_each_extends [of e d FLASH_COMMANDS ?w1] show ?thesis
      by auto
  next
    case False
    with b show ?thesis
      by (simp add: flash_images_abort)
  qed
qed

text \<open>
  Claim C1. In every run of \<open>flash_images\<close> the first command is the identity check
  \<open>fastboot getvar all\<close>, so it comes before any flash command. If the check fails,
  \<open>flash_images\<close> returns at once: the check is the only command it ran, no flash
  command among them, and the only outcome it reports is the one line that says the
  device is no longer detected.
\<close>

theorem flash_images_identity_gate:
  "(\<exists>rest. events_since w (snd (flash_images e d w)) =
        Print (nl @ ''=== Flashing images ==='') # Exec [''fastboot'', ''getvar'', ''all''] # rest)
   \<and> (fst (detect_oneplus_n200_fastboot e w) = Inr False \<longrightarrow>
        fst (flash_images e d w) = Inr ()
        \<and> events_since w (snd (flash_images e d w)) =
            [Print (nl @ ''=== Flashing images ===''),
             Exec [''fastboot'', ''getvar'', ''all''],
             Print ''[-] Device is no longer detected as OnePlus N200! Aborting.'']
        \<and> flash_commands (events_since w (snd (flash_images e d w))) = []
        \<and> reports (events_since w (snd (flash_images e d w))) =
            [''[-] Device is no longer detected as OnePlus N200! Aborting.''])"
proof
  from flash_images_starts_with_check [of e d w]
  show "\<exists>rest. events_since w (snd (flash_images e d w)) =
        Print (nl @ ''=== Flashing images ==='') # Exec [''fastboot'', ''getvar'', ''all''] # rest"
    by (auto simp: events_since_def)
next
  show "fst (detect_oneplus_n200_fastboot e w) = Inr False \<longrightarrow>
        fst (flash_images e d w) = Inr ()
        \<and> events_since w (snd (flash_images e d w)) =
            [Print (nl @ ''=== Flashing images ===''),
             Exec [''fastboot'', ''getvar'', ''all''],
             Print ''[-] Device is no longer detected as OnePlus N200! Aborting.'']
        \<and> flash_commands (events_since w (snd (flash_images e d w))) = []
        \<and> reports (events_since w (snd (flash_images e d w))) =
            [''[-] Device is no longer detected as OnePlus N200! Aborting.'']"
    by (simp add: flash_images_abort events_since_def flash_commands_def reports_def nl_def)
qed

theorem flash_images_identity_gate_witness:
  "fst (detect_oneplus_n200_fastboot env_other_phone start) = Inr False
   \<and> flash_images env_other_phone ''/tmp/fw'' start =
       (Inr (), \<lparr>tick = 1, trace =
            [Print (nl @ ''=== Flashing images ===''),
             Exec [''fastboot'', ''getvar'', ''all''],
             Print ''[-] Device is no longer detected as OnePlus N200! Aborting.'']\<rparr>)
   \<and> flash_commands (events_since start (snd (flash_images env_other_phone ''/tmp/fw'' start))) = []"
proof -
  have a: "fst (detect_oneplus_n200_fastboot env_other_phone start) = Inr False"
    by code_simp
  have b: "flash_images env_other_phone ''/tmp/fw'' start =
       (Inr (), \<lparr>tick = 1, trace =
            [Print (nl @ ''=== Flashing images ===''),
             Exec [''fastboot'', ''getvar'', ''all''],
             Print ''[-] Device is no longer detected as OnePlus N200! Aborting.'']\<rparr>)"
    by code_simp
  from flash_images_identity_gate [of start env_other_phone "''/tmp/fw''"] a
  have "flash_commands (events_since start (snd (flash_images env_other_phone ''/tmp/fw'' start))) = []"
    by blast
  with a b show ?thesis by blast
qed

lemma flash_images_reports:
  assumes identity: "fst (detect_oneplus_n200_fastboot e w) = Inr True"
    and tool: "\<forall>t part path. proc_answer e t (flash_cmd part path) \<noteq> None"
  shows "fst (flash_images e d w) = Inr ()
    \<and> length (flashAll_from e d (Suc (tick w)) FLASH_COMMANDS) = length FLASH_COMMANDS
    \<and> tested (events_since w (snd (flash_images e d w))) =
        map (\<lambda>(part, img_file). os_path_join d img_file) FLASH_COMMANDS
    \<and> reports (events_since w (snd (flash_images e d w))) =
        map (\<lambda>(spec, outcome). report_line spec outcome)
          (zip FLASH_COMMANDS (flashAll_from e d (Suc (tick w)) FLASH_COMMANDS))
    \<and> flash_commands (events_since w (snd (flash_images e d w))) =
        attempted_flash_commands d FLASH_COMMANDS (flashAll_from e d (Suc (tick w)) FLASH_COMMANDS)"
proof -
  let ?w1 = "ask (Exec [''fastboot'', ''getvar'', ''all'']) (print (nl @ ''=== Flashing images ==='') w)"
  have run: "flash_images e d w = flash_each e d FLASH_COMMANDS ?w1"
    using identity by (rule flash_images_sweep)
  from flash_each_sweep [OF tool, of d FLASH_COMMANDS ?w1] obtain evs where
    r: "fst (flash_each e d FLASH_COMMANDS ?w1) = Inr ()" and
    t: "trace (snd (flash_each e d FLASH_COMMANDS ?w1)) = trace ?w1 @ evs" and
    p: "tested evs = map (\<lambda>(part, img_file). os_path_join d img_file) FLASH_COMMANDS" and
    q: "reports evs = map (\<lambda>(spec, outcome). report_line spec outcome)
          (zip FLASH_COMMANDS (flashAll_from e d (Suc (tick w)) FLASH_COMMANDS))" and
    c: "flash_commands evs = attempted_flash_commands d FLASH_COMMANDS (flashAll_from e d (Suc (tick w)) FLASH_COMMANDS)"
    by auto
  have ev: "events_since w (snd (flash_images e d w)) =
      [Print (nl @ ''=== Flashing images ===''), Exec [''fastboot'', ''getvar'', ''all'']] @ evs"
    using t by (simp add: run events_since_def)
  have "tested (events_since w (snd (flash_images e d w))) =
        map (\<lambda>(part, img_file). os_path_join d img_file) FLASH_COMMANDS"
    unfolding ev using p by simp
  moreover have "reports (events_since w (snd (flash_images e d w))) =
        map (\<lambda>(spec, outcome). report_line spec outcome)
          (zip FLASH_COMMANDS (flashAll_from e d (Suc (tick w)) FLASH_COMMANDS))"
    unfolding ev reports_append using q by (simp add: reports_def nl_def)
  moreover have "flash_commands (events_since w (snd (flash_images e d w))) =
        attempted_flash_commands d FLASH_COMMANDS (flashAll_from e d (Suc (tick w)) FLASH_COMMANDS)"
    unfolding ev flash_commands_append using c by (simp add: flash_commands_def)
  moreover have "fst (flash_images e d w) = Inr ()"
    using r by (simp add: run)
  moreover have "length (flashAll_from e d (Suc (tick w)) FLASH_COMMANDS) = length FLASH_COMMANDS"
    using tool by (rule length_flashAll_from)
  ultimately show ?thesis by blast
qed



lemma flashAll_from_only_tz_missing:
  assumes files: "\<forall>t. \<forall>(part, img_file)\<in>set specs.
                    path_exists e t (os_path_join d img_file) = (img_file \<noteq> ''tz.img'')"
    and zero: "\<forall>t part path. \<exists>r. proc_answer e t (flash_cmd part path) = Some r \<and> returncode r = 0"
  shows "flashAll_from e d t specs =
           map (\<lambda>(part, img_file). if img_file = ''tz.img'' then SkippedMissingFile else Flashed) specs"
  using files
proof (induction specs arbitrary: t)
  case Nil
  then show ?case by simp
next
  case (Cons spec specs)
  obtain part img_file where spec: "spec = (part, img_file)" by (cases spec)
  from zero [rule_format, of "Suc t" part "os_path_join d img_file"]
  obtain r where r: "proc_answer e (Suc t) (flash_cmd part (os_path_join d img_file)) = Some r"
    "returncode r = 0" by blast
  from Cons.prems have here: "path_exists e t (os_path_join d img_file) = (img_file \<noteq> ''tz.img'')"
    by (auto simp: spec)
  from Cons.prems have "\<forall>t. \<forall>(part, img_file)\<in>set specs.
                    path_exists e t (os_path_join d img_file) = (img_file \<noteq> ''tz.img'')"
    by simp
  from Cons.IH [OF this] here r show ?case
    by (simp add: spec)
qed

text \<open>
  Claim C5. With a passed identity check, \<open>tz.img\<close> the only image file of
  \<open>FLASH_COMMANDS\<close> missing from the directory, and every flash command exiting zero,
  the sweep over the eighteen pairs gives \<open>SkippedMissingFile\<close> for \<open>tz\<close> and
  \<open>Flashed\<close> for the other seventeen, reported in the declared order; the seventeen
  flash commands are run in that order and none for \<open>tz\<close>.
\<close>

theorem flash_images_tz_missing:
  assumes identity: "fst (detect_oneplus_n200_fastboot e w) = Inr True"
    and files: "\<forall>t. \<forall>(part, img_file)\<in>set FLASH_COMMANDS.
                  path_exists e t (os_path_join d img_file) = (img_file \<noteq> ''tz.img'')"
    and zero: "\<forall>t part path. \<exists>r. proc_answer e t (flash_cmd part path) = Some r \<and> returncode r = 0"
  shows "fst (flash_images e d w) = Inr ()
    \<and> flashAll_from e d (Suc (tick w)) FLASH_COMMANDS =
        [Flashed, Flashed, Flashed, Flashed, Flashed, Flashed, Flashed, Flashed, Flashed,
         Flashed, Flashed, Flashed, Flashed, Flashed, SkippedMissingFile, Flashed, Flashed, Flashed]
    \<and> reports (events_since w (snd (flash_images e d w))) =
       [''[+] Successfully flashed abl'',
        ''[+] Successfully flashed bluetooth'',
        ''[+] Successfully flashed core_nhlos'',
        ''[+] Successfully flashed devcfg'',
        ''[+] Successfully flashed dsp'',
        ''[+] Successfully flashed featenabler'',
        ''[+] Successfully flashed hyp'',
        ''[+] Successfully flashed imagefv'',
        ''[+] Successfully flashed keymaster'',
        ''[+] Successfully flashed logo'',
        ''[+] Successfully flashed modem'',
        ''[+] Successfully flashed oplusstanvbk'',
        ''[+] Successfully flashed qupfw'',
        ''[+] Successfully flashed rpm'',
        ''[-] File missing: tz.img. Skipping.'',
        ''[+] Successfully flashed uefisecapp'',
        ''[+] Successfully flashed xbl_config'',
        ''[+] Successfully flashed xbl'']
    \<and> map (\<lambda>cmd. cmd ! 3) (flash_commands (events_since w (snd (flash_images e d w)))) =
       [''abl'', ''bluetooth'', ''core_nhlos'', ''devcfg'', ''dsp'', ''featenabler'', ''hyp'',
        ''imagefv'', ''keymaster'', ''logo'', ''modem'', ''oplusstanvbk'', ''qupfw'', ''rpm'',
        ''uefisecapp'', ''xbl_config'', ''xbl'']"
proof -
  have tool: "\<forall>t part path. proc_answer e t (flash_cmd part path) \<noteq> None"
  proof (intro allI)
    fix t part path
    from zero [rule_format, of t part path] show "proc_answer e t (flash_cmd part path) \<noteq> None"
      by auto
  qed
  let ?outs = "map (\<lambda>(part, img_file). if img_file = ''tz.img'' then SkippedMissingFile else Flashed) FLASH_COMMANDS"
  have outs: "flashAll_from e d (Suc (tick w)) FLASH_COMMANDS = ?outs"
    using files zero by (rule flashAll_from_only_tz_missing)
  have explicit: "?outs =
        [Flashed, Flashed, Flashed, Flashed, Flashed, Flashed, Flashed, Flashed, Flashed,
         Flashed, Flashed, Flashed, Flashed, Flashed, SkippedMissingFile, Flashed, Flashed, Flashed]"
    by (simp add: FLASH_COMMANDS_def)
  have sweep: "fst (flash_images e d w) = Inr ()
    \<and> reports (events_since w (snd (flash_images e d w))) =
        map (\<lambda>(spec, outcome). report_line spec outcome)
          (zip FLASH_COMMANDS (flashAll_from e d (Suc (tick w)) FLASH_COMMANDS))
    \<and> flash_commands (events_since w (snd (flash_images e d w))) =
        attempted_flash_commands d FLASH_COMMANDS (flashAll_from e d (Suc (tick w)) FLASH_COMMANDS)"
    using flash_images_reports [OF identity tool, of d] by blast
  have lines: "map (\<lambda>(spec, outcome). report_line spec outcome)
          (zip FLASH_COMMANDS
        [Flashed, Flashed, Flashed, Flashed, Flashed, Flashed, Flashed, Flashed, Flashed,
         Flashed, Flashed, Flashed, Flashed, Flashed, SkippedMissingFile, Flashed, Flashed, Flashed]) =
       [''[+] Successfully flashed abl'',
        ''[+] Successfully flashed bluetooth'',
        ''[+] Successfully flashed core_nhlos'',
        ''[+] Successfully flashed devcfg'',
        ''[+] Successfully flashed dsp'',
        ''[+] Successfully flashed featenabler'',
        ''[+] Successfully flashed hyp'',
        ''[+] Successfully flashed imagefv'',
        ''[+] Successfully flashed keymaster'',
        ''[+] Successfully flashed logo'',
        ''[+] Successfully flashed modem'',
        ''[+] Successfully flashed oplusstanvbk'',
        ''[+] Successfully flashed qupfw'',
        ''[+] Successfully flashed rpm'',
        ''[-] File missing: tz.img. Skipping.'',
        ''[+] Successfully flashed uefisecapp'',
        ''[+] Successfully flashed xbl_config'',
        ''[+] Successfully flashed xbl'']"
    by (simp add: FLASH_COMMANDS_def)
  have cmds: "map (\<lambda>cmd. cmd ! 3) (attempted_flash_commands d FLASH_COMMANDS
        [Flashed, Flashed, Flashed, Flashed, Flashed, Flashed, Flashed, Flashed, Flashed,
         Flashed, Flashed, Flashed, Flashed, Flashed, SkippedMissingFile, Flashed, Flashed, Flashed]) =
       [''abl'', ''bluetooth'', ''core_nhlos'', ''devcfg'', ''dsp'', ''featenabler'', ''hyp'',
        ''imagefv'', ''keymaster'', ''logo'', ''modem'', ''oplusstanvbk'', ''qupfw'', ''rpm'',
        ''uefisecapp'', ''xbl_config'', ''xbl'']"
    by (simp add: FLASH_COMMANDS_def attempted_flash_commands_def flash_cmd_def)
  from sweep outs explicit lines cmds show ?thesis by simp
qed

theorem flash_images_tz_missing_witness:
  "fst (detect_oneplus_n200_fastboot env_tz_missing start) = Inr True
   \<and> (\<forall>t part path. \<exists>r. proc_answer env_tz_missing t (flash_cmd part path) = Some r \<and> returncode r = 0)
   \<and> flashAll_from env_tz_missing ''/tmp/fw'' (Suc (tick start)) FLASH_COMMANDS =
        [Flashed, Flashed, Flashed, Flashed, Flashed, Flashed, Flashed, Flashed, Flashed,
         Flashed, Flashed, Flashed, Flashed, Flashed, SkippedMissingFile, Flashed, Flashed, Flashed]
   \<and> fst (flash_images env_tz_missing ''/tmp/fw'' start) = Inr ()"
proof -
  have a: "fst (detect_oneplus_n200_fastboot env_tz_missing start) = Inr True"
    by code_simp
  have b: "\<forall>t. \<forall>(part, img_file)\<in>set FLASH_COMMANDS.
         path_exists env_tz_missing t (os_path_join ''/tmp/fw'' img_file) = (img_file \<noteq> ''tz.img'')"
    by (simp add: env_tz_missing_def scripted_def FLASH_COMMANDS_def os_path_join_def)
  have c: "\<forall>t part path. \<exists>r. proc_answer env_tz_missing t (flash_cmd part path) = Some r \<and> returncode r = 0"
    by (simp add: env_tz_missing_def scripted_def flash_cmd_def completed_def)
  from flash_images_tz_missing [OF a b c] a c show ?thesis by blast
qed

text \<open>
  Claim C7, at an input where it fails. \<open>flash_images\<close> and \<open>extract_zst_files\<close> call
  \<open>subprocess.run\<close> themselves and not through \<open>run\<close>, so a missing binary is not
  caught there. When the fastboot tool answers the identity check and is gone by the
  first flash command, \<open>flash_images\<close> ends in \<open>FileNotFoundError\<close>; when there is no
  \<open>zstd\<close> tool, \<open>extract_zst_files\<close> does.
\<close>

theorem missing_tool_raises:
  "flash_images env_fastboot_tool_removed ''/tmp/fw'' start =
     (Inl FileNotFoundError,
      \<lparr>tick = 3, trace =
         [Print (nl @ ''=== Flashing images ===''),
          Exec [''fastboot'', ''getvar'', ''all''],
          Exists ''/tmp/fw/abl.img'',
          Print ''[*] Flashing abl -> abl.img'',
          Exec [''fastboot'', ''flash'', ''--slot=all'', ''abl'', ''/tmp/fw/abl.img'']]\<rparr>)
   \<and> extract_zst_files env_no_zstd_tool ''/tmp/fw'' start =
     (Inl FileNotFoundError,
      \<lparr>tick = 2, trace =
         [Listdir ''/tmp/fw'',
          Print ''[*] Extracting abl.img.zst -> /tmp/fw/abl.img'',
          Exec [''zstd'', ''-d'', ''-f'', ''/tmp/fw/abl.img.zst'', ''-o'', ''/tmp/fw/abl.img'']]\<rparr>)"
  by code_simp

section \<open>The fastboot-mode loop\<close>

lemma detect_fastboot_mode_world:
  "snd (detect_fastboot_mode e w) = ask (Exec [''fastboot'', ''getvar'', ''is-userspace'']) w"
  by (simp add: detect_fastboot_mode_def run_result Let_def split: option.splits)

lemma detect_fastboot_mode_returns: "\<exists>mode. fst (detect_fastboot_mode e w) = Inr mode"
  by (simp add: detect_fastboot_mode_def run_result Let_def split: option.splits)

lemma fastboot_device_present_world:
  "snd (fastboot_device_present e w) = ask (Exec [''fastboot'', ''devices'']) w"
  by (simp add: fastboot_device_present_result)

lemma ensure_fastbootd_while_absent:
  assumes absent: "fst (fastboot_device_present e (ask (Exec [''fastboot'', ''getvar'', ''is-userspace'']) w)) = Inr False"
  shows "ensure_fastbootd_while e w =
           Some (Inr False,
             print ''No fastboot device detected.''
               (ask (Exec [''fastboot'', ''devices''])
                 (ask (Exec [''fastboot'', ''getvar'', ''is-userspace'']) w)))"
proof -
  let ?w1 = "ask (Exec [''fastboot'', ''getvar'', ''is-userspace'']) w"
  obtain mode where "fst (detect_fastboot_mode e w) = Inr mode"
    using detect_fastboot_mode_returns by blast
  then have m: "detect_fastboot_mode e w = (Inr mode, ?w1)"
    using detect_fastboot_mode_world [of e w] by (metis prod.collapse)
  have p: "fastboot_device_present e ?w1 = (Inr False, ask (Exec [''fastboot'', ''devices'']) ?w1)"
    using absent fastboot_device_present_world [of e ?w1] by (metis prod.collapse)
  show ?thesis
    by (subst ensure_fastbootd_while.simps) (simp add: m p)
qed

lemma ensure_fastbootd_while_unknown:
  assumes mode: "fst (detect_fastboot_mode e w) = Inr ''unknown''"
    and present: "fst (fastboot_device_present e (ask (Exec [''fastboot'', ''getvar'', ''is-userspace'']) w)) = Inr True"
  shows "ensure_fastbootd_while e w =
           ensure_fastbootd_while e
             (sleep 3
               (print (warning_sign @ '' Unknown fastboot mode. Retrying in 3s...'')
                 (ask (Exec [''fastboot'', ''devices''])
                   (ask (Exec [''fastboot'', ''getvar'', ''is-userspace'']) w))))"
proof -
  let ?w1 = "ask (Exec [''fastboot'', ''getvar'', ''is-userspace'']) w"
  have m: "detect_fastboot_mode e w = (Inr ''unknown'', ?w1)"
    using mode detect_fastboot_mode_world [of e w] by (metis prod.collapse)
  have p: "fastboot_device_present e ?w1 = (Inr True, ask (Exec [''fastboot'', ''devices'']) ?w1)"
    using present fastboot_device_present_world [of e ?w1] by (metis prod.collapse)
  have "ensure_fastbootd_while e w =
        (case detect_fastboot_mode e w of
        (Inl x, w1) \<Rightarrow> Some (Inl x, w1)
      | (Inr mode, w1) \<Rightarrow>
          (case fastboot_device_present e w1 of
             (Inl x, w2) \<Rightarrow> Some (Inl x, w2)
           | (Inr present, w2) \<Rightarrow>
               if \<not> present then Some (Inr False, print ''No fastboot device detected.'' w2)
               else if mode = ''fastbootd''
                 then Some (Inr True, print (check_mark @ '' Device is in fastbootd (userspace).'') w2)
               else if mode = ''bootloader''
                 then (case run e [''fastboot'', ''reboot'', ''fastboot'']
                              (print (clockwise_arrow @ '' Device is in bootloader fastboot. Rebooting to fastbootd...'') w2) of
                         (Inl x, w3) \<Rightarrow> Some (Inl x, w3)
                       | (Inr _, w3) \<Rightarrow>
                           ensure_fastbootd_while e
                             (sleep 15 (print ''Waiting 15 seconds for fastbootd...'' w3)))
               else ensure_fastbootd_while e
                      (sleep 3 (print (warning_sign @ '' Unknown fastboot mode. Retrying in 3s...'') w2))))"
    by (rule ensure_fastbootd_while.simps)
  also have "\<dots> = ensure_fastbootd_while e
             (sleep 3
               (print (warning_sign @ '' Unknown fastboot mode. Retrying in 3s...'')
                 (ask (Exec [''fastboot'', ''devices'']) ?w1)))"
    by (simp add: m p)
  finally show ?thesis .
qed


text \<open>
  Claim C2 says that an iteration on which the submode is unknown or the device is
  absent waits 3 and retries. It fails for the absent device: with the submode unknown
  and the device list empty, the loop returns false on that very iteration, with no
  wait.
\<close>

theorem ensure_fastbootd_absent_counterexample:
  "fst (detect_fastboot_mode env_device_gone start) = Inr ''unknown''
   \<and> fst (fastboot_device_present env_device_gone (snd (detect_fastboot_mode env_device_gone start))) = Inr False
   \<and> ensure_fastbootd_while env_device_gone start =
       Some (Inr False,
         \<lparr>tick = 2, trace =
            [Exec [''fastboot'', ''getvar'', ''is-userspace''],
             Exec [''fastboot'', ''devices''],
             Print ''No fastboot device detected.'']\<rparr>)
   \<and> map_option (\<lambda>(r, w). slept (trace w)) (ensure_fastbootd_while env_device_gone start) = Some []"
  by code_simp

text \<open>
  Claim C2, amended. On an iteration where the submode query yields unknown and the
  presence poll reports a device, the loop prints its warning, waits 3 and goes on with
  the next iteration. On an iteration where the presence poll reports no device, the
  loop does not wait: it returns false at once, whatever the submode.
\<close>

theorem ensure_fastbootd_while_poll:
  "(fst (detect_fastboot_mode e w) = Inr ''unknown''
      \<and> fst (fastboot_device_present e (ask (Exec [''fastboot'', ''getvar'', ''is-userspace'']) w)) = Inr True
    \<longrightarrow> ensure_fastbootd_while e w =
          ensure_fastbootd_while e
            (sleep 3
              (print (warning_sign @ '' Unknown fastboot mode. Retrying in 3s...'')
                (ask (Exec [''fastboot'', ''devices''])
                  (ask (Exec [''fastboot'', ''getvar'', ''is-userspace'']) w)))))
   \<and> (fst (fastboot_device_present e (ask (Exec [''fastboot'', ''getvar'', ''is-userspace'']) w)) = Inr False
    \<longrightarrow> ensure_fastbootd_while e w =
          Some (Inr False,
            print ''No fastboot device detected.''
              (ask (Exec [''fastboot'', ''devices''])
                (ask (Exec [''fastboot'', ''getvar'', ''is-userspace'']) w))))"
  using ensure_fastbootd_while_unknown [of e w] ensure_fastbootd_while_absent [of e w]
  by blast

theorem ensure_fastbootd_while_poll_witness:
  "fst (detect_fastboot_mode env_slow_to_answer start) = Inr ''unknown''
   \<and> fst (fastboot_device_present env_slow_to_answer (ask (Exec [''fastboot'', ''getvar'', ''is-userspace'']) start)) = Inr True
   \<and> ensure_fastbootd_while env_slow_to_answer start =
       ensure_fastbootd_while env_slow_to_answer
         (sleep 3
           (print (warning_sign @ '' Unknown fastboot mode. Retrying in 3s...'')
             (ask (Exec [''fastboot'', ''devices''])
               (ask (Exec [''fastboot'', ''getvar'', ''is-userspace'']) start))))
   \<and> map_option (\<lambda>(r, w). (r, slept (trace w))) (ensure_fastbootd_while env_slow_to_answer start) = Some (Inr True, [3])
   \<and> fst (fastboot_device_present env_device_gone (ask (Exec [''fastboot'', ''getvar'', ''is-userspace'']) start)) = Inr False
   \<and> ensure_fastbootd_while env_device_gone start =
       Some (Inr False,
         print ''No fastboot device detected.''
           (ask (Exec [''fastboot'', ''devices''])
             (ask (Exec [''fastboot'', ''getvar'', ''is-userspace'']) start)))"
proof -
  have a: "fst (detect_fastboot_mode env_slow_to_answer start) = Inr ''unknown''"
    by code_simp
  have b: "fst (fastboot_device_present env_slow_to_answer (ask (Exec [''fastboot'', ''getvar'', ''is-userspace'']) start)) = Inr True"
    by code_simp
  have c: "map_option (\<lambda>(r, w). (r, slept (trace w))) (ensure_fastbootd_while env_slow_to_answer start) = Some (Inr True, [3])"
    by code_simp
  have d: "fst (fastboot_device_present env_device_gone (ask (Exec [''fastboot'', ''getvar'', ''is-userspace'']) start)) = Inr False"
    by code_simp
  from ensure_fastbootd_while_poll [of env_slow_to_answer start]
       ensure_fastbootd_while_poll [of env_device_gone start] a b c d
  show ?thesis by blast
qed

lemma ensure_fastbootd_absent:
  assumes "\<forall>w. fst (fastboot_device_present e w) = Inr False"
  shows "ensure_fastbootd e w =
           Some (Inr False,
             print ''No fastboot device detected.''
               (ask (Exec [''fastboot'', ''devices''])
                 (ask (Exec [''fastboot'', ''getvar'', ''is-userspace''])
                   (print (nl @ ''=== Ensuring fastbootd ==='') w))))"
  unfolding ensure_fastbootd_def
  using assms by (intro ensure_fastbootd_while_absent) simp

text \<open>
  Claim C6. If every presence poll reports no device, \<open>ensure_fastbootd\<close> returns, and
  returns false, after one submode query and one presence poll, without a wait. The
  loop has no bound on its iterations (its model is a partial function with no fuel), so
  this does not rest on a cap.
\<close>

theorem ensure_fastbootd_no_device:
  assumes "\<forall>w. fst (fastboot_device_present e w) = Inr False"
  shows "ensure_fastbootd e w =
           Some (Inr False,
             print ''No fastboot device detected.''
               (ask (Exec [''fastboot'', ''devices''])
                 (ask (Exec [''fastboot'', ''getvar'', ''is-userspace''])
                   (print (nl @ ''=== Ensuring fastbootd ==='') w))))
         \<and> slept (events_since w (print ''No fastboot device detected.''
               (ask (Exec [''fastboot'', ''devices''])
                 (ask (Exec [''fastboot'', ''getvar'', ''is-userspace''])
                   (print (nl @ ''=== Ensuring fastbootd ==='') w))))) = []"
  using ensure_fastbootd_absent [OF assms, of w] by (simp add: events_since_def)

theorem ensure_fastbootd_no_device_witness:
  "(\<forall>w. fst (fastboot_device_present env_device_gone w) = Inr False)
   \<and> ensure_fastbootd env_device_gone start =
       Some (Inr False,
         \<lparr>tick = 2, trace =
            [Print (nl @ ''=== Ensuring fastbootd ===''),
             Exec [''fastboot'', ''getvar'', ''is-userspace''],
             Exec [''fastboot'', ''devices''],
             Print ''No fastboot device detected.'']\<rparr>)"
proof -
  have a: "\<forall>w. fst (fastboot_device_present env_device_gone w) = Inr False"
    by (simp add: fastboot_device_present_result env_device_gone_def scripted_def completed_def)
  from ensure_fastbootd_no_device [OF a, of start]
  have "ensure_fastbootd env_device_gone start =
           Some (Inr False,
             print ''No fastboot device detected.''
               (ask (Exec [''fastboot'', ''devices''])
                 (ask (Exec [''fastboot'', ''getvar'', ''is-userspace''])
                   (print (nl @ ''=== Ensuring fastbootd ==='') start))))"
    by blast
  then have "ensure_fastbootd env_device_gone start =
       Some (Inr False,
         \<lparr>tick = 2, trace =
            [Print (nl @ ''=== Ensuring fastbootd ===''),
             Exec [''fastboot'', ''getvar'', ''is-userspace''],
             Exec [''fastboot'', ''devices''],
             Print ''No fastboot device detected.'']\<rparr>)"
    by (simp add: print_def emit_def ask_def start_def)
  with a show ?thesis by blast
qed

section \<open>Download, extraction and the main flow\<close>

lemma trace_emit [simp]: "trace (emit ev w) = trace w @ [ev]"
  by (simp add: emit_def)

lemma tick_emit [simp]: "tick (emit ev w) = tick w"
  by (simp add: emit_def)

lemma fetched_append [simp]: "fetched (evs @ evs') = fetched evs @ fetched evs'"
  by (induction evs rule: fetched.induct) simp_all

lemma download_each_fresh:
  assumes fresh: "\<forall>t p. \<not> path_exists e t p"
    and ok: "\<forall>t u. http_status e t u = 200"
  shows "\<exists>evs. trace (download_each e d fs w) = trace w @ evs
           \<and> fetched evs = map (\<lambda>f. BASE_URL @ f) fs \<and> executed evs = []"
proof (induction fs arbitrary: w)
  case Nil
  then show ?case by simp
next
  case (Cons f fs)
  let ?w' = "print (''[+] Downloaded '' @ f)
               (emit (WriteFile (os_path_join d f))
                 (ask (HttpGet (BASE_URL @ f))
                   (print (''[*] Downloading '' @ f @ ''...'')
                     (ask (Exists (os_path_join d f)) w))))"
  have step: "download_each e d (f # fs) w = download_each e d fs ?w'"
    using fresh ok by (simp add: os_path_exists_def requests_get_def Let_def)
  from Cons.IH [of ?w'] obtain evs where
    t: "trace (download_each e d fs ?w') = trace ?w' @ evs" and
    g: "fetched evs = map (\<lambda>f. BASE_URL @ f) fs" and
    x: "executed evs = []"
    by blast
  let ?evs = "[Exists (os_path_join d f), Print (''[*] Downloading '' @ f @ ''...''),
               HttpGet (BASE_URL @ f), WriteFile (os_path_join d f),
               Print (''[+] Downloaded '' @ f)] @ evs"
  have "trace (download_each e d (f # fs) w) = trace w @ ?evs"
    unfolding step using t by simp
  moreover have "fetched ?evs = map (\<lambda>f. BASE_URL @ f) (f # fs)"
    using g by simp
  moreover have "executed ?evs = []"
    using x by simp
  ultimately show ?case by blast
qed

lemma download_files_fresh:
  assumes fresh: "\<forall>t p. \<not> path_exists e t p"
    and ok: "\<forall>t u. http_status e t u = 200"
  shows "fst (download_files e fs w) = mkdtemp_answer e (tick w) ''oplus_download_''
         \<and> (\<exists>evs. trace (snd (download_files e fs w)) = trace w @ evs
               \<and> fetched evs = map (\<lambda>f. BASE_URL @ f) fs \<and> executed evs = [])"
proof -
  let ?d = "mkdtemp_answer e (tick w) ''oplus_download_''"
  let ?w2 = "print (''[+] Temporary download directory: '' @ ?d) (ask (Mkdtemp ''oplus_download_'') w)"
  have def: "download_files e fs w = (?d, download_each e ?d fs ?w2)"
    by (simp add: download_files_def mkdtemp_def Let_def)
  from download_each_fresh [OF fresh ok, of ?d fs ?w2] obtain evs where
    t: "trace (download_each e ?d fs ?w2) = trace ?w2 @ evs" and
    g: "fetched evs = map (\<lambda>f. BASE_URL @ f) fs" and
    x: "executed evs = []"
    by blast
  let ?evs = "[Mkdtemp ''oplus_download_'', Print (''[+] Temporary download directory: '' @ ?d)] @ evs"
  have "trace (snd (download_files e fs w)) = trace w @ ?evs"
    using t by (simp add: def)
  moreover have "fetched ?evs = map (\<lambda>f. BASE_URL @ f) fs" using g by simp
  moreover have "executed ?evs = []" using x by simp
  ultimately show ?thesis using def by (metis fst_conv)
qed

lemma extract_each_all:
  assumes tool: "\<forall>t d f. proc_answer e t (zstd_cmd d f) \<noteq> None"
    and zst: "\<forall>f\<in>set fs. endswith f ''.zst''"
  shows "fst (extract_each e d fs w) = Inr ()
         \<and> (\<exists>evs. trace (snd (extract_each e d fs w)) = trace w @ evs
               \<and> fetched evs = [] \<and> executed evs = map (zstd_cmd d) fs)"
  using zst
proof (induction fs arbitrary: w)
  case Nil
  then show ?case by simp
next
  case (Cons f fs)
  let ?out = "os_path_join d (take (length f - 4) f)"
  let ?w1 = "print (''[*] Extracting '' @ f @ '' -> '' @ ?out) w"
  from tool [rule_format, of "tick w" d f] obtain r where
    r: "proc_answer e (tick w) (zstd_cmd d f) = Some r" by auto
  define line where "line = (if returncode r \<noteq> 0 then ''[-] Failed to extract '' @ f @ '': '' @ stderr r
               else ''[+] Extracted '' @ f)"
  let ?w' = "print line (ask (Exec (zstd_cmd d f)) ?w1)"
  from Cons.prems have f: "endswith f ''.zst''" and rest: "\<forall>f\<in>set fs. endswith f ''.zst''"
    by simp_all
  have step: "extract_each e d (f # fs) w = extract_each e d fs ?w'"
    using f r by (simp add: subprocess_run_def Let_def zstd_cmd_def line_def)
  from Cons.IH [OF rest, of ?w'] obtain evs where
    res: "fst (extract_each e d fs ?w') = Inr ()" and
    t: "trace (snd (extract_each e d fs ?w')) = trace ?w' @ evs" and
    g: "fetched evs = []" and
    x: "executed evs = map (zstd_cmd d) fs"
    by blast
  let ?evs = "[Print (''[*] Extracting '' @ f @ '' -> '' @ ?out), Exec (zstd_cmd d f), Print line] @ evs"
  have "trace (snd (extract_each e d (f # fs) w)) = trace w @ ?evs"
    unfolding step using t by simp
  moreover have "fetched ?evs = []" using g by simp
  moreover have "executed ?evs = map (zstd_cmd d) (f # fs)" using x by simp
  moreover have "fst (extract_each e d (f # fs) w) = Inr ()" unfolding step using res by simp
  ultimately show ?case by blast
qed

lemma FILES_zst: "\<forall>f\<in>set FILES. endswith f ''.zst''"
  by code_simp


lemma main_download_and_flash_wrong_device:
  assumes fresh: "\<forall>t p. \<not> path_exists e t p"
    and ok: "\<forall>t u. http_status e t u = 200"
    and listing: "\<forall>t d. listdir_answer e t d = FILES"
    and tool: "\<forall>t d f. proc_answer e t (zstd_cmd d f) \<noteq> None"
    and other: "\<forall>w. fst (detect_oneplus_n200_fastboot e w) = Inr False"
  shows "fst (main_download_and_flash e w) = Inr ()
         \<and> (\<exists>evs. trace (snd (main_download_and_flash e w)) = trace w @ evs
               \<and> fetched evs = map (\<lambda>f. BASE_URL @ f) FILES
               \<and> executed evs =
                   map (zstd_cmd (mkdtemp_answer e (tick w) ''oplus_download_'')) FILES
                     @ [[''fastboot'', ''getvar'', ''all''], [''fastboot'', ''reboot'']])"
proof -
  let ?w0 = "print (nl @ ''=== Downloading Needed Update Files ==='' @ nl) w"
  let ?d = "mkdtemp_answer e (tick w) ''oplus_download_''"
  define w1 where "w1 = snd (download_files e FILES ?w0)"
  from download_files_fresh [OF fresh ok, of FILES ?w0] obtain evs1 where
    d: "fst (download_files e FILES ?w0) = ?d" and
    t1: "trace w1 = trace ?w0 @ evs1" and
    g1: "fetched evs1 = map (\<lambda>f. BASE_URL @ f) FILES" and
    x1: "executed evs1 = []"
    by (auto simp: w1_def)
  have dl: "download_files e FILES ?w0 = (?d, w1)"
    using d by (simp add: w1_def prod_eq_iff)
  let ?w1' = "ask (Listdir ?d) w1"
  define w2 where "w2 = snd (extract_each e ?d FILES ?w1')"
  from extract_each_all [OF tool FILES_zst, of ?d ?w1'] obtain evs2 where
    r2: "fst (extract_each e ?d FILES ?w1') = Inr ()" and
    t2: "trace w2 = trace ?w1' @ evs2" and
    g2: "fetched evs2 = []" and
    x2: "executed evs2 = map (zstd_cmd ?d) FILES"
    by (auto simp: w2_def)
  have ex: "extract_zst_files e ?d w1 = (Inr (), w2)"
    using r2 listing by (simp add: extract_zst_files_def os_listdir_def w2_def prod_eq_iff)
  let ?w3 = "print ''[-] Device is no longer detected as OnePlus N200! Aborting.''
               (ask (Exec [''fastboot'', ''getvar'', ''all''])
                 (print (nl @ ''=== Flashing images ==='') (print (nl @ ''=== Flashing Update Files ==='' @ nl) w2)))"
  have fl: "flash_images e ?d (print (nl @ ''=== Flashing Update Files ==='' @ nl) w2) = (Inr (), ?w3)"
    using other by (simp add: flash_images_abort)
  let ?w7 = "print ''Rebooting Device''
               (print ''[+] Cleanup complete.''
                 (emit (Rmtree ?d) (print (''[*] Cleaning up temporary files: '' @ ?d) ?w3)))"
  let ?w9 = "print (nl @ ''[+] All done.'') (ask (Exec [''fastboot'', ''reboot'']) ?w7)"
  have all: "main_download_and_flash e w = (Inr (), ?w9)"
    by (simp only: main_download_and_flash_def Let_def dl ex fl run_result prod.case sum.case)
  let ?evs = "[Print (nl @ ''=== Downloading Needed Update Files ==='' @ nl)] @ evs1 @ [Listdir ?d] @ evs2
      @ [Print (nl @ ''=== Flashing Update Files ==='' @ nl),
         Print (nl @ ''=== Flashing images ===''),
         Exec [''fastboot'', ''getvar'', ''all''],
         Print ''[-] Device is no longer detected as OnePlus N200! Aborting.'',
         Print (''[*] Cleaning up temporary files: '' @ ?d),
         Rmtree ?d,
         Print ''[+] Cleanup complete.'',
         Print ''Rebooting Device'',
         Exec [''fastboot'', ''reboot''],
         Print (nl @ ''[+] All done.'')]"
  have "trace (snd (main_download_and_flash e w)) = trace w @ ?evs"
    unfolding all using t1 t2 by simp
  moreover have "fetched ?evs = map (\<lambda>f. BASE_URL @ f) FILES"
    using g1 g2 by simp
  moreover have "executed ?evs = map (zstd_cmd ?d) FILES
                     @ [[''fastboot'', ''getvar'', ''all''], [''fastboot'', ''reboot'']]"
    using x1 x2 by simp
  moreover have "fst (main_download_and_flash e w) = Inr ()"
    unfolding all by simp
  ultimately show ?thesis by blast
qed


text \<open>A run of \<open>main\<close> with the bridge tool installed, the target phone listed by it, and
  no fastboot tool installed.\<close>

lemma disclaimer_not_report: "disclaimer \<noteq> ''No fastboot device detected.''"
  by (simp add: disclaimer_def nl_def)

lemma no_fastboot_tool_adb_present:
  "adb_device_present env_no_fastboot_tool w = (Inr True, ask (Exec [''adb'', ''devices'']) w)"
proof -
  have "\<exists>line\<in>set (drop 1 (splitlines (strip
          (''List of devices attached'' @ nl @ ''8a1b2c3d'' @ [CHR 0x09] @ ''device'' @ nl @ nl)))).
          endswith (strip line) ''device''"
    by code_simp
  then show ?thesis
    by (simp add: adb_device_present_result env_no_fastboot_tool_def scripted_def completed_def)
qed

lemma no_fastboot_tool_adb_identity:
  "detect_oneplus_n200_adb env_no_fastboot_tool w = (Inr True, ask (Exec [''adb'', ''shell'', ''getprop'']) w)"
proof -
  have "\<exists>line\<in>set (splitlines (strip
          (''[ro.product.model]: [DE2117]'' @ nl @ ''[ro.product.name]: [OnePlusN200]'' @ nl))).
          contains line ''ro.product.name'' \<and> contains line ''OnePlusN200''"
    by code_simp
  then show ?thesis
    by (simp add: detect_oneplus_n200_adb_result env_no_fastboot_tool_def scripted_def completed_def)
qed

lemma no_fastboot_tool_absent:
  "fastboot_device_present env_no_fastboot_tool w = (Inr False, ask (Exec [''fastboot'', ''devices'']) w)"
  by (simp add: fastboot_device_present_result env_no_fastboot_tool_def scripted_def)

lemma no_fastboot_tool_identity:
  "fst (detect_oneplus_n200_fastboot env_no_fastboot_tool w) = Inr False"
  by (simp add: detect_oneplus_n200_fastboot_result env_no_fastboot_tool_def scripted_def)

lemma no_fastboot_tool_transition:
  "ensure_fastbootd env_no_fastboot_tool w =
     Some (Inr False,
       print ''No fastboot device detected.''
         (ask (Exec [''fastboot'', ''devices''])
           (ask (Exec [''fastboot'', ''getvar'', ''is-userspace''])
             (print (nl @ ''=== Ensuring fastbootd ==='') w))))"
  by (rule ensure_fastbootd_absent) (simp add: no_fastboot_tool_absent)

lemma lower_strip_yes: "lower (strip ''yes'') = ''yes''"
  by code_simp

lemma no_fastboot_tool_fastboot_mode:
  "main_fastboot_mode env_no_fastboot_tool w =
     Some (main_download_and_flash env_no_fastboot_tool (ask (Exec [''fastboot'', ''devices'']) w))"
  by (simp add: main_fastboot_mode_def no_fastboot_tool_absent)

lemma no_fastboot_tool_adb_mode:
  "main_adb_mode env_no_fastboot_tool w =
     Some (main_download_and_flash env_no_fastboot_tool
       (ask (Exec [''fastboot'', ''devices''])
         (print ''No fastboot device detected.''
           (ask (Exec [''fastboot'', ''devices''])
             (ask (Exec [''fastboot'', ''getvar'', ''is-userspace''])
               (print (nl @ ''=== Ensuring fastbootd ==='')
                 (sleep 15
                   (ask (Exec [''adb'', ''reboot'', ''fastboot''])
                     (print (check_mark @ '' Device is a OnePlus N200 (ADB mode). Rebooting to fastbootd...'')
                       (ask (Exec [''adb'', ''shell'', ''getprop''])
                         (print ''[*] Device detected in ADB mode.''
                           (ask (Exec [''adb'', ''devices'']) w))))))))))))"
  by (simp only: main_adb_mode_def no_fastboot_tool_adb_present no_fastboot_tool_adb_identity
      run_result no_fastboot_tool_transition no_fastboot_tool_fastboot_mode
      prod.case sum.case option.case if_True)


lemma after_failed_transition_append:
  assumes "Print ''No fastboot device detected.'' \<in> set evs"
  shows "after_failed_transition (evs @ evs') = after_failed_transition evs @ evs'"
proof -
  let ?P = "\<lambda>ev. ev \<noteq> Print ''No fastboot device detected.''"
  have split: "dropWhile ?P (evs @ evs') = dropWhile ?P evs @ evs'"
    using assms by (intro dropWhile_append1) auto
  have "dropWhile ?P evs \<noteq> []"
    using assms by (auto simp: dropWhile_eq_Nil_conv)
  then obtain x xs where "dropWhile ?P evs = x # xs"
    by (cases "dropWhile ?P evs") auto
  then show ?thesis
    unfolding after_failed_transition_def split by simp
qed

text \<open>
  Claim C3, at an input where it fails. \<open>main\<close> calls \<open>ensure_fastbootd\<close> twice and
  drops its result both times. With the phone in bridge mode and no fastboot tool, the
  transition fails (\<open>ensure_fastbootd\<close> returns false and prints that no fastboot
  device is detected); \<open>main\<close> goes on all the same: after that line it polls for a
  fastboot device, fetches the eighteen archives, runs \<open>zstd\<close> on each, runs the identity
  check of \<open>flash_images\<close> (which fails, so nothing is flashed here), and issues the
  final \<open>fastboot reboot\<close>, then returns normally.
\<close>

theorem main_goes_on_after_failed_transition:
  "map_option (\<lambda>(r, w). r) (ensure_fastbootd env_no_fastboot_tool start) = Some (Inr False)
   \<and> map_option
       (\<lambda>(r, w). (r, fetched (after_failed_transition (trace w)),
                      executed (after_failed_transition (trace w))))
       (main env_no_fastboot_tool start) =
     Some (Inr (),
           map (\<lambda>f. BASE_URL @ f) FILES,
           [''fastboot'', ''devices'']
             # map (zstd_cmd ''/tmp/oplus_download_k3v9'') FILES
             @ [[''fastboot'', ''getvar'', ''all''], [''fastboot'', ''reboot'']])"
proof -
  let ?e = env_no_fastboot_tool
  let ?init = "print (nl @ ''=== Starting Device Detection Logic ==='' @ nl)
               (print (nl @ ''=== OnePlus N200 C.37 Blobs Autoflasher ==='' @ nl)
                 (ask (Input ''Do you want to continue? (yes/[no]): '') (print disclaimer start)))"
  let ?failed = "ask (Exec [''fastboot'', ''devices''])
         (print ''No fastboot device detected.''
           (ask (Exec [''fastboot'', ''devices''])
             (ask (Exec [''fastboot'', ''getvar'', ''is-userspace''])
               (print (nl @ ''=== Ensuring fastbootd ==='')
                 (sleep 15
                   (ask (Exec [''adb'', ''reboot'', ''fastboot''])
                     (print (check_mark @ '' Device is a OnePlus N200 (ADB mode). Rebooting to fastbootd...'')
                       (ask (Exec [''adb'', ''shell'', ''getprop''])
                         (print ''[*] Device detected in ADB mode.''
                           (ask (Exec [''adb'', ''devices'']) ?init))))))))))"
  have typed: "typed_line ?e t = ''yes''" for t
    by (simp add: env_no_fastboot_tool_def scripted_def)
  have "main ?e start = main_adb_mode ?e ?init"
    by (simp only: main_def input_def Let_def prod.case typed lower_strip_yes) simp
  then have run: "main ?e start = Some (main_download_and_flash ?e ?failed)"
    by (simp only: no_fastboot_tool_adb_mode)
  have fresh: "\<forall>t p. \<not> path_exists ?e t p"
    by (simp add: env_no_fastboot_tool_def scripted_def)
  have ok: "\<forall>t u. http_status ?e t u = 200"
    by (simp add: env_no_fastboot_tool_def scripted_def)
  have listing: "\<forall>t d. listdir_answer ?e t d = FILES"
    by (simp add: env_no_fastboot_tool_def scripted_def)
  have tool: "\<forall>t d f. proc_answer ?e t (zstd_cmd d f) \<noteq> None"
    by (simp add: env_no_fastboot_tool_def scripted_def zstd_cmd_def)
  have other: "\<forall>w. fst (detect_oneplus_n200_fastboot ?e w) = Inr False"
    by (simp add: no_fastboot_tool_identity)
  have dir: "mkdtemp_answer ?e (tick ?failed) ''oplus_download_'' = ''/tmp/oplus_download_k3v9''"
    by (simp add: env_no_fastboot_tool_def scripted_def)
  from main_download_and_flash_wrong_device [OF fresh ok listing tool other, of ?failed]
  obtain evs where
    r: "fst (main_download_and_flash ?e ?failed) = Inr ()" and
    t: "trace (snd (main_download_and_flash ?e ?failed)) = trace ?failed @ evs" and
    g: "fetched evs = map (\<lambda>f. BASE_URL @ f) FILES" and
    x: "executed evs = map (zstd_cmd ''/tmp/oplus_download_k3v9'') FILES
                     @ [[''fastboot'', ''getvar'', ''all''], [''fastboot'', ''reboot'']]"
    unfolding dir by blast
  have "after_failed_transition (trace ?failed) = [Exec [''fastboot'', ''devices'']]"
    by (simp add: after_failed_transition_def start_def disclaimer_not_report nl_def check_mark_def)
  moreover have "Print ''No fastboot device detected.'' \<in> set (trace ?failed)"
    by simp
  ultimately have after: "after_failed_transition (trace ?failed @ evs) = Exec [''fastboot'', ''devices''] # evs"
    by (simp only: after_failed_transition_append append_Cons append_Nil)
  have a: "map_option
       (\<lambda>(r, w). (r, fetched (after_failed_transition (trace w)),
                      executed (after_failed_transition (trace w))))
       (main ?e start) =
     Some (Inr (),
           map (\<lambda>f. BASE_URL @ f) FILES,
           [''fastboot'', ''devices'']
             # map (zstd_cmd ''/tmp/oplus_download_k3v9'') FILES
             @ [[''fastboot'', ''getvar'', ''all''], [''fastboot'', ''reboot'']])"
    unfolding run using r t g x after by (simp add: case_prod_beta)
  have b: "map_option (\<lambda>(r, w). r) (ensure_fastbootd ?e start) = Some (Inr False)"
    by (simp add: no_fastboot_tool_transition)
  from a b show ?thesis by blast
qed

end
